theory Spec2Isabelle
  imports Complex_Main "HOL-Library.Sublist"
begin

section \<open>Data model (lib/src/types)\<close>

text \<open>
  JavaScript numbers that carry CPU cores and memory (GB) are modelled as \<open>rat\<close>;
  identifiers, zone counts and disk counts are modelled as \<open>int\<close>. An optional
  field \<open>f?: T\<close> is a \<open>T option\<close>, \<open>None\<close> standing for \<open>undefined\<close>.
  Record fields that several source types share (\<open>id\<close>, \<open>name\<close>, \<open>services\<close>,
  \<open>memory\<close>, \<open>onlyFor\<close>, \<open>zones\<close>, \<open>nodes\<close>) carry a prefix naming their type.
\<close>

text \<open>
  \<open>Service\<close> and \<open>ServiceDescriptor\<close> (types/Service.ts) differ only in what
  \<open>runsWith\<close> and \<open>avoid\<close> refer to: service ids, or service names.
  The fields \<open>overCommitMode\<close> and \<open>ownerReference\<close> are read by no function
  modelled here and are left out.
\<close>

record 'r service_of =
  s_id :: "int option"
  s_name :: string
  requiredCPU :: rat
  requiredMemory :: rat
  limitCPU :: "rat option"
  limitMemory :: "rat option"
  minLimitCPU :: "rat option"
  maxLimitCPU :: "rat option"
  minLimitMemory :: "rat option"
  maxLimitMemory :: "rat option"
  s_zones :: int
  runsWith :: "'r list"
  avoid :: "'r list"

type_synonym Service = "int service_of"

type_synonym ServiceDescriptor = "string service_of"

text \<open>
  \<open>Workload\<close> and \<open>WorkloadDescriptor\<close> (types/Workload.ts) differ only in
  \<open>services\<close>: service ids, or service descriptors.
\<close>

record 's workload_of =
  w_id :: "int option"
  w_name :: string
  count :: int
  usesMachines :: "string list"
  w_services :: "'s list"
  allowControlPlane :: "bool option"
  requireControlPlane :: "bool option"

type_synonym Workload = "int workload_of"

type_synonym WorkloadDescriptor = "ServiceDescriptor workload_of"

text \<open>\<open>Node\<close> (types/Node.ts).\<close>

record Node =
  n_id :: int
  maxDisks :: int
  cpuUnits :: rat
  n_memory :: rat
  machineSet :: string
  n_services :: "int list"
  n_instanceName :: string
  n_onlyFor :: "string list"
  isControlPlane :: "bool option"
  n_allowWorkloadScheduling :: "bool option"
  n_controlPlaneReserved :: "(rat \<times> rat) option"

text \<open>\<open>Zone\<close>: an id and the ids of its nodes.\<close>

record Zone =
  z_id :: int
  z_nodes :: "int list"

text \<open>
  Modelled from the spec: types/MachineSet.ts is not among the sources. The fields are
  those of section 3 of the specification (MachineSet), which are also the ones the
  code reads: \<open>name\<close>, \<open>cpu\<close>, \<open>memory\<close>, \<open>instanceName\<close>, \<open>numberOfDisks\<close>,
  \<open>onlyFor\<close>, \<open>label\<close>, optional \<open>allowWorkloadScheduling\<close> and optional
  \<open>controlPlaneReserved {cpu, memory}\<close>.
\<close>

record MachineSet =
  ms_name :: string
  cpu :: rat
  ms_memory :: rat
  ms_instanceName :: string
  numberOfDisks :: int
  ms_onlyFor :: "string list"
  label :: string
  ms_allowWorkloadScheduling :: "bool option"
  ms_controlPlaneReserved :: "(rat \<times> rat) option"

text \<open>
  utils/kubelet.ts is not among the sources. Its two exported functions are taken as
  a parameter of every function that calls them, so that all results below hold for
  whatever the two functions compute.
\<close>

record kubelet =
  getNodeKubeletCPURequirements :: "rat \<Rightarrow> rat"
  getNodeKubeletMemoryRequirements :: "rat \<Rightarrow> rat"

text \<open>JavaScript truthiness of an optional boolean.\<close>

definition truthy :: "bool option \<Rightarrow> bool" where
  "truthy b = (b = Some True)"

section \<open>Strings\<close>

text \<open>\<open>String.prototype.includes\<close>: the argument occurs as a contiguous substring.\<close>

definition includes_str :: "string \<Rightarrow> string \<Rightarrow> bool" where
  "includes_str s sub = sublist sub s"

text \<open>\<open>String.prototype.toLowerCase\<close>, on the ASCII letters.\<close>

definition toLowerCase :: "string \<Rightarrow> string" where
  "toLowerCase s =
     map (\<lambda>c. case map_of (zip ''ABCDEFGHIJKLMNOPQRSTUVWXYZ'' ''abcdefghijklmnopqrstuvwxyz'') c of
                 Some d \<Rightarrow> d | None \<Rightarrow> c) s"

section \<open>Resource accounting (lib/src/utils/common.ts)\<close>

record ResourceRequirement =
  totalMem :: rat
  totalCPU :: rat
  totalDisks :: int

definition getTotalResourceRequirement :: "Service list \<Rightarrow> bool \<Rightarrow> ResourceRequirement" where
  "getTotalResourceRequirement services multiplyByZone =
     fold (\<lambda>service acc.
        \<lparr> totalMem = totalMem acc +
             (if multiplyByZone then requiredMemory service * of_int (s_zones service)
              else requiredMemory service),
          totalCPU = totalCPU acc +
             (if multiplyByZone then requiredCPU service * of_int (s_zones service)
              else requiredCPU service),
          totalDisks = totalDisks acc +
             (if includes_str (s_name service) ''Ceph_OSD'' then 1 else 0) \<rparr>)
       services \<lparr> totalMem = 0, totalCPU = 0, totalDisks = 0 \<rparr>"

definition canNodeSupportRequirements ::
  "kubelet \<Rightarrow> ResourceRequirement \<Rightarrow> ResourceRequirement \<Rightarrow> Node \<Rightarrow> bool" where
  "canNodeSupportRequirements K requirements currentUsage node =
     (let kubeletCPU = getNodeKubeletCPURequirements K (cpuUnits node);
          kubeletMemory = getNodeKubeletMemoryRequirements K (n_memory node)
      in if totalCPU requirements + totalCPU currentUsage + kubeletCPU > cpuUnits node \<or>
            totalMem requirements + totalMem currentUsage + kubeletMemory > n_memory node \<or>
            totalDisks requirements + totalDisks currentUsage > maxDisks node
         then False else True)"

section \<open>Node engine (lib/src/utils/node.ts)\<close>

definition controlPlaneServiceNames :: "string list" where
  "controlPlaneServiceNames =
     [''kube-apiserver'', ''etcd'', ''kube-controller-manager'', ''kube-scheduler'',
      ''cluster-version-operator'', ''control-plane'', ''controlplane'']"

definition isControlPlaneService :: "Service \<Rightarrow> bool" where
  "isControlPlaneService service =
     list_ex (\<lambda>name. includes_str (toLowerCase (s_name service)) (toLowerCase name))
       controlPlaneServiceNames"

definition getServicesInNode :: "Node \<Rightarrow> Service list \<Rightarrow> Service list" where
  "getServicesInNode node services =
     filter (\<lambda>service. case s_id service of None \<Rightarrow> False
                        | Some i \<Rightarrow> i \<in> set (n_services node)) services"

definition canNodeAddService ::
  "kubelet \<Rightarrow> Node \<Rightarrow> Service \<Rightarrow> Service list \<Rightarrow> Workload list \<Rightarrow> MachineSet list \<Rightarrow> bool" where
  "canNodeAddService K node candidate allServices workloads machineSets =
     (case s_id candidate of
        None \<Rightarrow> False
      | Some candidateId \<Rightarrow>
         (case find (\<lambda>workload. candidateId \<in> set (w_services workload)) workloads of
            None \<Rightarrow> False
          | Some currentWorkload \<Rightarrow>
             if usesMachines currentWorkload \<noteq> [] \<and>
                machineSet node \<notin> set (usesMachines currentWorkload)
             then False
             else
               let machineSetOpt = find (\<lambda>ms. ms_name ms = machineSet node) machineSets;
                   msAllows = (case machineSetOpt of None \<Rightarrow> False
                               | Some ms \<Rightarrow> truthy (ms_allowWorkloadScheduling ms))
               in
               if truthy (isControlPlane node) \<and> isControlPlaneService candidate then True
               else if truthy (isControlPlane node) \<and>
                       \<not> truthy (n_allowWorkloadScheduling node) \<and> \<not> msAllows then False
               else if \<not> truthy (isControlPlane node) \<and>
                       truthy (requireControlPlane currentWorkload) then False
               else
                 let isSchedulableControlPlane =
                       (case machineSetOpt of None \<Rightarrow> False
                        | Some ms \<Rightarrow> ms_name ms = ''controlPlane'' \<and>
                                     ms_allowWorkloadScheduling ms = Some True)
                 in
                 if \<not> isSchedulableControlPlane \<and> n_onlyFor node \<noteq> [] \<and>
                    w_name currentWorkload \<notin> set (n_onlyFor node)
                 then False
                 else
                   let existingServicesIds = n_services node;
                       existingServices = getServicesInNode node allServices
                   in
                   if list_ex (\<lambda>a. a \<in> set existingServicesIds) (avoid candidate) then False
                   else
                     let existingAvoids = concat (map avoid existingServices) in
                     if candidateId \<in> set existingAvoids then False
                     else
                       let nodeResourceConsumption =
                             getTotalResourceRequirement existingServices False;
                           coplacedServices =
                             filter (\<lambda>service. case s_id service of None \<Rightarrow> False
                                       | Some i \<Rightarrow> i \<in> set (runsWith candidate)) allServices;
                           adjustedCandidates = coplacedServices @ [candidate];
                           candidateResourceRequirement =
                             getTotalResourceRequirement adjustedCandidates False
                       in canNodeSupportRequirements K candidateResourceRequirement
                            nodeResourceConsumption node))"

definition getTotalNodeMemoryConsumption :: "Node \<Rightarrow> Service list \<Rightarrow> rat" where
  "getTotalNodeMemoryConsumption node services =
     totalMem (getTotalResourceRequirement (getServicesInNode node services) False)"

text \<open>\<open>_.max(services.map(s => s.zones)) || 1\<close>: an empty list and a maximum of 0 give 1.\<close>

definition getMaxZones :: "Service list \<Rightarrow> int" where
  "getMaxZones services =
     (case services of
        [] \<Rightarrow> 1
      | s # ss \<Rightarrow> (let m = fold (\<lambda>x acc. max acc (s_zones x)) ss (s_zones s)
                   in if m = 0 then 1 else m))"

text \<open>
  \<open>Array.prototype.sort\<close> with a comparator is stable; with a comparator that is a
  total preorder (all comparators below order by numeric keys) its result is the one
  of stable insertion sort, where \<open>x\<close> goes before \<open>y\<close> when \<open>cmp x y \<le> 0\<close>.
\<close>

primrec insert_js :: "('a \<Rightarrow> 'a \<Rightarrow> rat) \<Rightarrow> 'a \<Rightarrow> 'a list \<Rightarrow> 'a list" where
  "insert_js cmp x [] = [x]"
| "insert_js cmp x (y # ys) = (if cmp x y \<le> 0 then x # y # ys else y # insert_js cmp x ys)"

definition sort_js :: "('a \<Rightarrow> 'a \<Rightarrow> rat) \<Rightarrow> 'a list \<Rightarrow> 'a list" where
  "sort_js cmp xs = foldr (insert_js cmp) xs []"

definition sortBestZones ::
  "kubelet \<Rightarrow> Zone list \<Rightarrow> Node list \<Rightarrow> Service list \<Rightarrow> Service list \<Rightarrow> Zone list" where
  "sortBestZones K zones nodes allServices workload =
     (let requirements = getTotalResourceRequirement workload False;
          freeNodesOf = (\<lambda>zone.
             let nodesInZone = filter (\<lambda>node. n_id node \<in> set (z_nodes zone)) nodes;
                 nodesThatCanSupport = filter (\<lambda>node.
                    let servicesInNode = getServicesInNode node allServices;
                        currentNodeUsage = getTotalResourceRequirement servicesInNode False
                    in canNodeSupportRequirements K requirements currentNodeUsage node) nodesInZone
             in length nodesThatCanSupport);
          suitableZones = filter (\<lambda>(zone, freeNodes). freeNodes > 0)
                            (map (\<lambda>zone. (zone, freeNodesOf zone)) zones);
          sorted = sort_js (\<lambda>(zoneA, freeA) (zoneB, freeB).
                      let diff = int freeB - int freeA
                      in if diff = 0 then of_int (z_id zoneB - z_id zoneA) else of_int diff)
                    suitableZones
      in map fst sorted)"

section \<open>Errors and the module-level id counters\<close>

text \<open>
  \<open>Error msg\<close> is the \<open>Error\<close> thrown by \<open>validateWorkloadsCanSchedule\<close>;
  \<open>TypeError\<close> is what JavaScript throws when a property of \<open>undefined\<close> is read.
\<close>

datatype error = Error string | TypeError

text \<open>
  The four \<open>let xIdCounter = 0\<close> variables of workloadScheduler.ts, service.ts and
  workload.ts live at module level: they are state that outlives a call. Every function
  that draws an id takes the counters and returns them updated.
\<close>

record counters =
  zoneIdCounter :: int
  nodeIdCounter :: int
  workloadIdCounter :: int
  serviceIdCounter :: int

section \<open>Placement on a zone (lib/src/utils/service.ts)\<close>

text \<open>The result is \<open>None\<close> where the source returns \<open>undefined\<close> (no machine set matches).\<close>

definition getMachineSetForWorkload :: "Workload \<Rightarrow> MachineSet list \<Rightarrow> MachineSet option" where
  "getMachineSetForWorkload workload machineSets =
     (case find (\<lambda>ms. w_name workload \<in> set (ms_onlyFor ms)) machineSets of
        Some dedicatedMS \<Rightarrow> Some dedicatedMS
      | None \<Rightarrow>
          if usesMachines workload \<noteq> []
          then find (\<lambda>ms. ms_name ms \<in> set (usesMachines workload)) machineSets
          else (case find (\<lambda>ms. ms_name ms \<noteq> ''controlPlane'' \<and> ms_name ms \<noteq> ''control-plane'')
                       machineSets of
                  Some defaultMS \<Rightarrow> Some defaultMS
                | None \<Rightarrow> (case machineSets of [] \<Rightarrow> None | ms # _ \<Rightarrow> Some ms)))"

definition sortNodesWithLeastConsumption ::
  "kubelet \<Rightarrow> Node list \<Rightarrow> Service list \<Rightarrow> Service list \<Rightarrow> Workload list \<Rightarrow> MachineSet list
     \<Rightarrow> Node list" where
  "sortNodesWithLeastConsumption K nodes services candidateServices workloads machineSets =
     (let viableNodes = filter (\<lambda>node.
            list_all (\<lambda>candidate. canNodeAddService K node candidate services workloads machineSets)
              candidateServices) nodes
      in sort_js (\<lambda>a b. getTotalNodeMemoryConsumption a services -
                         getTotalNodeMemoryConsumption b services) viableNodes)"

definition getNode :: "counters \<Rightarrow> MachineSet \<Rightarrow> Node \<times> counters" where
  "getNode c ms =
     (\<lparr> n_id = nodeIdCounter c + 1,
        maxDisks = numberOfDisks ms,
        cpuUnits = cpu ms,
        n_memory = ms_memory ms,
        machineSet = ms_name ms,
        n_services = [],
        n_instanceName = ms_instanceName ms,
        n_onlyFor = ms_onlyFor ms,
        isControlPlane = Some (ms_name ms = ''controlPlane''),
        n_allowWorkloadScheduling =
          (case ms_allowWorkloadScheduling ms of
             Some b \<Rightarrow> Some b
           | None \<Rightarrow> if ms_name ms = ''controlPlane'' then Some False else None),
        n_controlPlaneReserved =
          (case ms_controlPlaneReserved ms of
             Some r \<Rightarrow> Some r
           | None \<Rightarrow> if ms_name ms = ''controlPlane'' then Some (2, 4) else None) \<rparr>,
      c\<lparr>nodeIdCounter := nodeIdCounter c + 1\<rparr>)"

text \<open>\<open>xs[xs.findIndex(P)] = f(xs[...])\<close> when the index is not \<open>-1\<close>: the first match is replaced.\<close>

primrec updateFirst :: "('a \<Rightarrow> bool) \<Rightarrow> ('a \<Rightarrow> 'a) \<Rightarrow> 'a list \<Rightarrow> 'a list" where
  "updateFirst P f [] = []"
| "updateFirst P f (x # xs) = (if P x then f x # xs else x # updateFirst P f xs)"

text \<open>
  \<open>addServiceToZone\<close>. Reading \<open>candidateServices[0].id\<close> of an empty list throws; so
  does \<open>getNode(undefined)\<close>, after \<open>++nodeIdCounter\<close> has been evaluated.
\<close>

definition addServiceToZone ::
  "kubelet \<Rightarrow> counters \<Rightarrow> Zone \<Rightarrow> Node list \<Rightarrow> Service list \<Rightarrow> Service list \<Rightarrow> Workload list
     \<Rightarrow> MachineSet list \<Rightarrow> (error \<times> counters) + ((Node list \<times> Zone) \<times> counters)" where
  "addServiceToZone K c zone nodes services candidateServices workloads machineSets =
     (let nodesInZone = filter (\<lambda>node. n_id node \<in> set (z_nodes zone)) nodes;
          sortedViableNodes = sortNodesWithLeastConsumption K nodesInZone services
                                candidateServices workloads machineSets;
          servicesToAdd = List.map_filter s_id candidateServices
      in case sortedViableNodes of
           nodeToRun # _ \<Rightarrow>
             Inr ((updateFirst (\<lambda>n. n_id n = n_id nodeToRun)
                     (\<lambda>n. n\<lparr>n_services := n_services n @ servicesToAdd\<rparr>) nodes, zone), c)
         | [] \<Rightarrow>
            (case candidateServices of
               [] \<Rightarrow> Inl (TypeError, c)
             | first # _ \<Rightarrow>
                (case find (\<lambda>wl. case s_id first of None \<Rightarrow> False
                                  | Some i \<Rightarrow> i \<in> set (w_services wl)) workloads of
                   None \<Rightarrow> Inr ((nodes, zone), c)
                 | Some workload \<Rightarrow>
                    (case getMachineSetForWorkload workload machineSets of
                       None \<Rightarrow> Inl (TypeError, c\<lparr>nodeIdCounter := nodeIdCounter c + 1\<rparr>)
                     | Some ms \<Rightarrow>
                        (let (node, c') = getNode c ms;
                             node' = node\<lparr>n_services := servicesToAdd\<rparr>
                         in Inr ((nodes @ [node'],
                                  zone\<lparr>z_nodes := z_nodes zone @ [n_id node']\<rparr>), c'))))))"

definition getCoplacedServices :: "Service \<Rightarrow> Service list \<Rightarrow> Service list" where
  "getCoplacedServices candidateService services =
     candidateService #
     filter (\<lambda>service. (case s_id service of None \<Rightarrow> False
                         | Some i \<Rightarrow> i \<in> set (runsWith candidateService)) \<and>
                        s_id service \<noteq> s_id candidateService) services"

text \<open>
  The callback of \<open>services.forEach\<close> in \<open>getAllCoplacedServices\<close>, on the pair of
  \<open>scheduledIDs\<close> and \<open>coplacedServices\<close>.
\<close>

definition coplacedStep ::
  "Service list \<Rightarrow> Service \<Rightarrow> int list \<times> Service list list \<Rightarrow> int list \<times> Service list list" where
  "coplacedStep services service =
     (\<lambda>(scheduledIDs, coplacedServices).
        case s_id service of
          None \<Rightarrow> (scheduledIDs, coplacedServices)
        | Some i \<Rightarrow>
            if i \<in> set scheduledIDs then (scheduledIDs, coplacedServices)
            else
              let coRunners = service #
                    List.map_filter (\<lambda>j. find (\<lambda>s. s_id s = Some j) services) (runsWith service)
              in (scheduledIDs @ [i] @ runsWith service, coplacedServices @ [coRunners]))"

definition getAllCoplacedServices :: "Service list \<Rightarrow> Service list list" where
  "getAllCoplacedServices services =
     snd (fold (coplacedStep services) services ([], []))"

text \<open>The comparator \<open>sortServices\<close>: descending by memory plus CPU.\<close>

definition sortServices :: "Service list \<Rightarrow> Service list \<Rightarrow> rat" where
  "sortServices serviceA serviceB =
     (let ra = getTotalResourceRequirement serviceA False;
          rb = getTotalResourceRequirement serviceB False
      in totalMem rb + totalCPU rb - (totalMem ra + totalCPU ra))"

section \<open>Workload scheduler (lib/src/scheduler/workloadScheduler.ts)\<close>

text \<open>
  The scheduler's mutable variables: the local \<open>zones\<close> and \<open>nodes\<close>, the caller's array
  \<open>usedZonesId\<close> (mutated in place by \<open>push\<close> and \<open>splice\<close>, so the caller sees the
  changes), and the module-level counters.
\<close>

record SchedulerState =
  st_zones :: "Zone list"
  st_nodes :: "Node list"
  st_usedZonesId :: "int list"
  st_counters :: counters

text \<open>\<open>_.times(n, f)\<close> for a body that updates a state and may throw.\<close>

primrec times_js :: "nat \<Rightarrow> ('s \<Rightarrow> 'e + 's) \<Rightarrow> 's \<Rightarrow> 'e + 's" where
  "times_js 0 f s = Inr s"
| "times_js (Suc n) f s = (case f s of Inl e \<Rightarrow> Inl e | Inr s' \<Rightarrow> times_js n f s')"

text \<open>\<open>xs.forEach(f)\<close> for a body that updates a state and may throw.\<close>

primrec forEach_js :: "('a \<Rightarrow> 's \<Rightarrow> 'e + 's) \<Rightarrow> 'a list \<Rightarrow> 's \<Rightarrow> 'e + 's" where
  "forEach_js f [] s = Inr s"
| "forEach_js f (x # xs) s = (case f x s of Inl e \<Rightarrow> Inl e | Inr s' \<Rightarrow> forEach_js f xs s')"

definition createZones :: "counters \<Rightarrow> int \<Rightarrow> Zone list \<times> counters" where
  "createZones c requiredZones =
     (case times_js (nat requiredZones)
             (\<lambda>(generatedZones, c).
                Inr (generatedZones @ [\<lparr> z_id = zoneIdCounter c + 1, z_nodes = [] \<rparr>],
                     c\<lparr>zoneIdCounter := zoneIdCounter c + 1\<rparr>) :: unit + Zone list \<times> counters)
             ([], c) of
        Inr r \<Rightarrow> r
      | Inl _ \<Rightarrow> ([], c))"

text \<open>
  The choice of the zone for one replica (the first half of the \<open>_.times\<close> callback):
  the zone, or \<open>None\<close> for \<open>undefined\<close>, and the updated \<open>usedZonesId\<close>.
  \<open>suitableZones.pop()\<close> takes the last element of the sorted list; the \<open>while\<close> loop
  finds the first zone whose id is not in \<open>usedZonesId\<close>.
\<close>

definition chooseZone ::
  "kubelet \<Rightarrow> Zone list \<Rightarrow> Node list \<Rightarrow> Service list \<Rightarrow> Service list \<Rightarrow> int list
     \<Rightarrow> Zone option \<times> int list" where
  "chooseZone K zones nodes services bundle usedZonesId =
     (let filteredZones = filter (\<lambda>z. z_id z \<notin> set usedZonesId) zones;
          suitableZones = sortBestZones K filteredZones nodes services bundle;
          (bestZone, used) =
            (if suitableZones \<noteq> [] then (Some (last suitableZones), usedZonesId)
             else
               (case find (\<lambda>z. z_id z \<notin> set usedZonesId) zones of
                  Some z \<Rightarrow> (Some z, usedZonesId)
                | None \<Rightarrow>
                    (let sortedZones = sort_js (\<lambda>a b. of_int (z_id b - z_id a)) zones
                     in (case sortedZones of [] \<Rightarrow> None | z # _ \<Rightarrow> Some z, []))))
      in (bestZone, case bestZone of Some z \<Rightarrow> used @ [z_id z] | None \<Rightarrow> used))"

text \<open>
  One replica of a bundle (the \<open>_.times\<close> callback). With \<open>bestZone\<close> undefined,
  \<open>addServiceToZone\<close> throws on \<open>zone.nodes\<close> as soon as there is a node to filter;
  with no node it throws on \<open>candidateServices[0]\<close> or on spreading
  \<open>updatedZone.nodes\<close> (after the node id was drawn), unless no workload owns the first
  candidate, in which case it returns and nothing is updated.
\<close>

definition scheduleReplica ::
  "kubelet \<Rightarrow> Workload \<Rightarrow> Service list \<Rightarrow> MachineSet list \<Rightarrow> Service list \<Rightarrow> SchedulerState
     \<Rightarrow> (error \<times> counters) + SchedulerState" where
  "scheduleReplica K workload services machineSets bundle st =
     (let (bestZone, used) = chooseZone K (st_zones st) (st_nodes st) services bundle
                               (st_usedZonesId st);
          c = st_counters st
      in case bestZone of
           None \<Rightarrow>
             if st_nodes st \<noteq> [] then Inl (TypeError, c)
             else (case bundle of
                     [] \<Rightarrow> Inl (TypeError, c)
                   | first # _ \<Rightarrow>
                       (case find (\<lambda>wl. case s_id first of None \<Rightarrow> False
                                         | Some i \<Rightarrow> i \<in> set (w_services wl)) [workload] of
                          None \<Rightarrow> Inr (st\<lparr>st_usedZonesId := used\<rparr>)
                        | Some _ \<Rightarrow> Inl (TypeError, c\<lparr>nodeIdCounter := nodeIdCounter c + 1\<rparr>)))
         | Some zone \<Rightarrow>
            (case addServiceToZone K c zone (st_nodes st) services bundle [workload] machineSets of
               Inl e \<Rightarrow> Inl e
             | Inr ((nodes', zone'), c') \<Rightarrow>
                 Inr \<lparr> st_zones = updateFirst (\<lambda>z. z_id z = z_id zone') (\<lambda>_. zone') (st_zones st),
                       st_nodes = nodes',
                       st_usedZonesId = used,
                       st_counters = c' \<rparr>))"

text \<open>
  The body of \<open>serviceObjects.forEach\<close>: the state is the scheduler state together with
  \<open>scheduledServiceIDs\<close>. \<open>_.times(n, f)\<close> runs \<open>f\<close> \<open>n\<close> times, and not at all for \<open>n < 1\<close>.
\<close>

definition scheduleService ::
  "kubelet \<Rightarrow> Workload \<Rightarrow> Service list \<Rightarrow> MachineSet list \<Rightarrow> Service list \<Rightarrow> Service
     \<Rightarrow> SchedulerState \<times> int list \<Rightarrow> (error \<times> counters) + (SchedulerState \<times> int list)" where
  "scheduleService K workload services machineSets serviceObjects candidateService =
     (\<lambda>(st, scheduledServiceIDs).
        case s_id candidateService of
          None \<Rightarrow> Inr (st, scheduledServiceIDs)
        | Some i \<Rightarrow>
            if i \<in> set scheduledServiceIDs then Inr (st, scheduledServiceIDs)
            else
              let bundle = getCoplacedServices candidateService
                             (filter (\<lambda>service. case s_id service of None \<Rightarrow> False
                                        | Some j \<Rightarrow> j \<notin> set scheduledServiceIDs) serviceObjects)
              in if bundle \<noteq> [] then
                   (let scheduleInZones = getMaxZones bundle
                    in case times_js (nat scheduleInZones)
                              (scheduleReplica K workload services machineSets bundle) st of
                         Inl e \<Rightarrow> Inl e
                       | Inr st' \<Rightarrow> Inr (st', scheduledServiceIDs @ List.map_filter s_id bundle))
                 else Inr (st, scheduledServiceIDs))"

text \<open>
  \<open>_.maxBy(serviceObjects, s => s.zones)?.zones || 1\<close> is the value that \<open>getMaxZones\<close>
  computes. The result carries the updated \<open>usedZonesId\<close> and counters beside
  \<open>zones\<close> and \<open>nodes\<close>.
\<close>

definition workloadScheduler ::
  "kubelet \<Rightarrow> counters \<Rightarrow> Workload \<Rightarrow> Service list \<Rightarrow> MachineSet list \<Rightarrow> Zone list \<Rightarrow> Node list
     \<Rightarrow> int list \<Rightarrow> (error \<times> counters) + SchedulerState" where
  "workloadScheduler K c workload services machineSets currentZones currentNodes usedZonesId =
     (let serviceObjects = filter (\<lambda>service. case s_id service of None \<Rightarrow> False
                                     | Some i \<Rightarrow> i \<in> set (w_services workload)) services;
          maxZonesRequired = getMaxZones serviceObjects;
          (zones, c1) =
            (if maxZonesRequired > int (length currentZones)
             then (let (zoneObjects, c') =
                         createZones c (maxZonesRequired - int (length currentZones))
                   in (currentZones @ zoneObjects, c'))
             else (currentZones, c))
      in case forEach_js (scheduleService K workload services machineSets serviceObjects)
                serviceObjects
                (\<lparr> st_zones = zones, st_nodes = currentNodes, st_usedZonesId = usedZonesId,
                    st_counters = c1 \<rparr>, []) of
           Inl e \<Rightarrow> Inl e
         | Inr (st, _) \<Rightarrow> Inr st)"

section \<open>Workloads (lib/src/utils/workload.ts)\<close>

text \<open>\<open>services.map(service => Object.assign({}, service, {id: generateServiceID()}))\<close>.\<close>

primrec assignServiceIDs ::
  "counters \<Rightarrow> ServiceDescriptor list \<Rightarrow> ServiceDescriptor list \<times> counters" where
  "assignServiceIDs c [] = ([], c)"
| "assignServiceIDs c (service # rest) =
     (let i = serviceIdCounter c + 1;
          (rest', c') = assignServiceIDs (c\<lparr>serviceIdCounter := i\<rparr>) rest
      in (service\<lparr>s_id := Some i\<rparr> # rest', c'))"

definition getWorkloadFromDescriptors ::
  "counters \<Rightarrow> WorkloadDescriptor \<Rightarrow> (Service list \<times> Workload) \<times> counters" where
  "getWorkloadFromDescriptors c workload =
     (let (serviceDescriptors, c1) = assignServiceIDs c (w_services workload);
          idOfName = (\<lambda>item. case find (\<lambda>so. s_name so = item) serviceDescriptors of
                               None \<Rightarrow> None | Some so \<Rightarrow> s_id so);
          serviceObjects = map (\<lambda>curr.
             \<lparr> s_id = s_id curr, s_name = s_name curr,
               requiredCPU = requiredCPU curr, requiredMemory = requiredMemory curr,
               limitCPU = limitCPU curr, limitMemory = limitMemory curr,
               minLimitCPU = minLimitCPU curr, maxLimitCPU = maxLimitCPU curr,
               minLimitMemory = minLimitMemory curr, maxLimitMemory = maxLimitMemory curr,
               s_zones = s_zones curr,
               runsWith = List.map_filter idOfName (runsWith curr),
               avoid = List.map_filter idOfName (avoid curr) \<rparr>) serviceDescriptors;
          serviceIDs = List.map_filter s_id serviceObjects;
          updatedWorkload =
             \<lparr> w_id = Some (workloadIdCounter c1 + 1), w_name = w_name workload,
               count = count workload, usesMachines = usesMachines workload,
               w_services = serviceIDs, allowControlPlane = allowControlPlane workload,
               requireControlPlane = requireControlPlane workload \<rparr>
      in ((serviceObjects, updatedWorkload),
          c1\<lparr>workloadIdCounter := workloadIdCounter c1 + 1\<rparr>))"

definition areServicesSchedulable :: "kubelet \<Rightarrow> Service list \<Rightarrow> MachineSet \<Rightarrow> bool" where
  "areServicesSchedulable K services ms =
     (let r = getTotalResourceRequirement services False;
          kubeletCPU = getNodeKubeletCPURequirements K (cpu ms);
          kubeletMemory = getNodeKubeletMemoryRequirements K (ms_memory ms)
      in totalMem r + kubeletMemory \<le> ms_memory ms \<and>
         totalCPU r + kubeletCPU \<le> cpu ms \<and>
         totalDisks r \<le> numberOfDisks ms)"

definition isWorkloadSchedulable ::
  "kubelet \<Rightarrow> Service list \<Rightarrow> MachineSet list \<Rightarrow> Workload \<Rightarrow> bool \<times> MachineSet list" where
  "isWorkloadSchedulable K services machineSets workload =
     (let serviceObjects = filter (\<lambda>service. case s_id service of None \<Rightarrow> False
                                     | Some i \<Rightarrow> i \<in> set (w_services workload)) services;
          coplacedServices = getAllCoplacedServices serviceObjects;
          sortedServices = sort_js sortServices coplacedServices
      in if usesMachines workload \<noteq> [] then
           (let preferredMS = filter (\<lambda>ms. ms_name ms \<in> set (usesMachines workload)) machineSets;
                canRun = filter (\<lambda>ms. list_all (\<lambda>ser. areServicesSchedulable K ser ms)
                                         sortedServices) preferredMS
            in if canRun \<noteq> [] then (True, canRun) else (False, []))
         else
           (let dedicatedMS = filter (\<lambda>ms. w_name workload \<in> set (ms_onlyFor ms)) machineSets;
                canRunDedicated = filter (\<lambda>ms. list_all (\<lambda>ser. areServicesSchedulable K ser ms)
                                                  sortedServices) dedicatedMS
            in if dedicatedMS \<noteq> [] \<and> canRunDedicated \<noteq> [] then (True, canRunDedicated)
               else
                 (let canRun = filter (\<lambda>ms.
                        if (ms_name ms = ''controlPlane'' \<or> ms_name ms = ''control-plane'') \<and>
                           ms_allowWorkloadScheduling ms \<noteq> Some True
                        then False
                        else (ms_onlyFor ms = [] \<or> w_name workload \<in> set (ms_onlyFor ms)) \<and>
                             list_all (\<lambda>ser. areServicesSchedulable K ser ms) sortedServices)
                        machineSets
                  in if canRun \<noteq> [] then (True, canRun) else (False, []))))"

section \<open>Platform catalog (lib/src/data)\<close>

text \<open>\<open>Instance\<close> (types/common.ts), with the fields that \<open>getDefaultMachineSets\<close> reads.\<close>

record Instance =
  i_name :: string
  i_memory :: rat
  i_cpuUnits :: rat
  i_maxDisks :: "int option"
  i_default :: "bool option"

text \<open>
  The per-platform JSON tables are not among the sources: \<open>platformData\<close> is a
  parameter, a partial map from platform names to instance lists. A missing AWS table
  makes \<open>instances.find\<close> throw, which is the result \<open>None\<close> here.
\<close>

definition getInstancesForPlatform ::
  "(string \<Rightarrow> Instance list option) \<Rightarrow> string \<Rightarrow> Instance list option" where
  "getInstancesForPlatform platformData platform =
     (case platformData platform of Some is \<Rightarrow> Some is | None \<Rightarrow> platformData ''AWS'')"

definition getDefaultInstanceForPlatform ::
  "(string \<Rightarrow> Instance list option) \<Rightarrow> string \<Rightarrow> Instance option" where
  "getDefaultInstanceForPlatform platformData platform =
     (case getInstancesForPlatform platformData platform of
        None \<Rightarrow> None
      | Some instances \<Rightarrow>
         (case find (\<lambda>i. truthy (i_default i)) instances of
            Some i \<Rightarrow> Some i
          | None \<Rightarrow> (case instances of [] \<Rightarrow> None | i # _ \<Rightarrow> Some i)))"

section \<open>Sizing facade (lib/src/core/ClusterSizer.ts)\<close>

record ClusterSizing =
  nodeCount :: nat
  r_zones :: nat
  r_totalCPU :: rat
  r_totalMemory :: rat
  r_nodes :: "Node list"
  r_zoneDetails :: "Zone list"
  r_services :: "Service list"

text \<open>Reading \<open>defaultInstance.cpuUnits\<close> of \<open>undefined\<close> throws: the result \<open>None\<close>.\<close>

definition getDefaultMachineSets ::
  "(string \<Rightarrow> Instance list option) \<Rightarrow> string \<Rightarrow> MachineSet list option" where
  "getDefaultMachineSets platformData platform =
     (case getDefaultInstanceForPlatform platformData platform of
        None \<Rightarrow> None
      | Some defaultInstance \<Rightarrow>
          Some [\<lparr> ms_name = ''default'',
                  cpu = i_cpuUnits defaultInstance,
                  ms_memory = i_memory defaultInstance,
                  ms_instanceName = i_name defaultInstance,
                  numberOfDisks = (case i_maxDisks defaultInstance of
                                     None \<Rightarrow> 24 | Some d \<Rightarrow> if d = 0 then 24 else d),
                  ms_onlyFor = [],
                  label = ''Worker Node'',
                  ms_allowWorkloadScheduling = None,
                  ms_controlPlaneReserved = None \<rparr>])"

text \<open>
  The decimal numeral that a template literal prints for an integral number
  (below \<open>10\<^sup>2\<^sup>1\<close> in absolute value, which holds for everything printed here
  that is capped at 200 or 512 and not hugely negative).
\<close>

function showNat :: "nat \<Rightarrow> string" where
  "showNat n = (if n < 10 then [''0123456789'' ! n]
                else showNat (n div 10) @ [''0123456789'' ! (n mod 10)])"
  by pat_completeness auto
termination
  by (relation "measure id") auto

declare showNat.simps [simp del]

definition numberToString :: "int \<Rightarrow> string" where
  "numberToString i = (if i < 0 then ''-'' @ showNat (nat (- i)) else showNat (nat i))"

text \<open>
  The local \<open>targetMachineSet\<close> of \<open>validateWorkloadsCanSchedule\<close>: the machine set
  that the workload should use, \<open>None\<close> for \<open>undefined\<close>.
\<close>

definition targetMachineSet :: "Workload \<Rightarrow> MachineSet list \<Rightarrow> MachineSet option" where
  "targetMachineSet workload machineSets =
     (if usesMachines workload \<noteq> []
      then find (\<lambda>ms. ms_name ms \<in> set (usesMachines workload)) machineSets
      else (case find (\<lambda>ms. ms_name ms \<noteq> ''controlPlane'' \<and>
                             ms_name ms \<noteq> ''control-plane'' \<and>
                             (ms_onlyFor ms = [] \<or> w_name workload \<in> set (ms_onlyFor ms)))
                   machineSets of
              Some ms \<Rightarrow> Some ms
            | None \<Rightarrow> (case machineSets of [] \<Rightarrow> None | ms # _ \<Rightarrow> Some ms)))"

text \<open>
  The message of the error thrown for a workload that is not schedulable. The totals
  are those of all the services of the workload; the kubelet overhead is that of the
  target machine set (of size 0 when there is none). The locals \<open>machineSetName\<close>,
  \<open>machineSetCPU\<close> and \<open>machineSetMemory\<close> of the source are computed and not used.
\<close>

definition notSchedulableMessage ::
  "kubelet \<Rightarrow> Workload \<Rightarrow> Service list \<Rightarrow> MachineSet list \<Rightarrow> string" where
  "notSchedulableMessage K workload services machineSets =
     (let target = targetMachineSet workload machineSets;
          workloadServices = filter (\<lambda>s. case s_id s of None \<Rightarrow> False
                                       | Some i \<Rightarrow> i \<in> set (w_services workload)) services;
          totalCPU = fold (\<lambda>s sum. sum + requiredCPU s) workloadServices 0;
          totalMemory = fold (\<lambda>s sum. sum + requiredMemory s) workloadServices 0;
          kubeletCPU = getNodeKubeletCPURequirements K
                         (case target of None \<Rightarrow> 0 | Some ms \<Rightarrow> cpu ms);
          kubeletMemory = getNodeKubeletMemoryRequirements K
                         (case target of None \<Rightarrow> 0 | Some ms \<Rightarrow> ms_memory ms);
          totalRequiredCPU = totalCPU + kubeletCPU;
          totalRequiredMemory = totalMemory + kubeletMemory;
          minRequiredCPU = min 200 (\<lceil>totalRequiredCPU / 2\<rceil> * 2);
          minRequiredMemory = min 512 (\<lceil>totalRequiredMemory / 4\<rceil> * 4)
      in ''Workload '' @ [CHR 0x22] @ w_name workload @ [CHR 0x22] @ '' is not schedulable. '' @
         ''All available MachineSets are too small to run this workload. '' @
         ''Minimum required: at least '' @ numberToString minRequiredCPU @ '' CPU and '' @
         numberToString minRequiredMemory @ '' GB memory.'')"

text \<open>\<open>validateWorkloadsCanSchedule\<close>: the error thrown, or \<open>None\<close> when it returns.\<close>

primrec validateWorkloadsCanSchedule ::
  "kubelet \<Rightarrow> Workload list \<Rightarrow> Service list \<Rightarrow> MachineSet list \<Rightarrow> error option" where
  "validateWorkloadsCanSchedule K [] services machineSets = None"
| "validateWorkloadsCanSchedule K (workload # rest) services machineSets =
     (let (isSchedulable, availableMachineSets) =
            isWorkloadSchedulable K services machineSets workload
      in if \<not> isSchedulable
         then Some (Error (notSchedulableMessage K workload services machineSets))
         else validateWorkloadsCanSchedule K rest services machineSets)"

text \<open>
  The first \<open>forEach\<close> of \<open>size\<close>: a workload with \<open>count > 1\<close> gets \<open>zones = count\<close>
  on each of its services, then ids are assigned.
\<close>

definition expandWorkload ::
  "WorkloadDescriptor \<Rightarrow> (Workload list \<times> Service list) \<times> counters
     \<Rightarrow> (Workload list \<times> Service list) \<times> counters" where
  "expandWorkload workloadDesc =
     (\<lambda>((allWorkloads, allServices), c).
        let adjustedWorkloadDesc =
              (if count workloadDesc > 1
               then workloadDesc\<lparr>w_services :=
                      map (\<lambda>s. s\<lparr>s_zones := count workloadDesc\<rparr>) (w_services workloadDesc)\<rparr>
               else workloadDesc);
            ((services, workload), c') = getWorkloadFromDescriptors c adjustedWorkloadDesc
        in ((allWorkloads @ [workload], allServices @ services), c'))"

text \<open>
  \<open>ClusterSizer.size\<close>, from the counters the module holds when it is called to the
  counters it leaves and the result: the error thrown, or the sizing returned.
\<close>

definition ClusterSizer_size ::
  "kubelet \<Rightarrow> (string \<Rightarrow> Instance list option) \<Rightarrow> counters \<Rightarrow> WorkloadDescriptor list \<Rightarrow> string
     \<Rightarrow> MachineSet list option \<Rightarrow> counters \<times> (error + ClusterSizing)" where
  "ClusterSizer_size K platformData c workloads platform machineSetsOpt =
     (case (case machineSetsOpt of
              Some ms \<Rightarrow> Some ms
            | None \<Rightarrow> getDefaultMachineSets platformData platform) of
        None \<Rightarrow> (c, Inl TypeError)
      | Some availableMachineSets \<Rightarrow>
         (let ((allWorkloads, allServices), c1) = fold expandWorkload workloads (([], []), c)
          in case validateWorkloadsCanSchedule K allWorkloads allServices availableMachineSets of
               Some e \<Rightarrow> (c1, Inl e)
             | None \<Rightarrow>
                (case forEach_js
                        (\<lambda>workload st.
                           workloadScheduler K (st_counters st) workload allServices
                             availableMachineSets (st_zones st) (st_nodes st) (st_usedZonesId st))
                        allWorkloads
                        \<lparr> st_zones = [], st_nodes = [], st_usedZonesId = [], st_counters = c1 \<rparr> of
                   Inl (e, c') \<Rightarrow> (c', Inl e)
                 | Inr st \<Rightarrow>
                     (st_counters st,
                      Inr \<lparr> nodeCount = length (st_nodes st),
                            r_zones = length (st_zones st),
                            r_totalCPU = fold (\<lambda>n sum. sum + cpuUnits n) (st_nodes st) 0,
                            r_totalMemory = fold (\<lambda>n sum. sum + n_memory n) (st_nodes st) 0,
                            r_nodes = st_nodes st,
                            r_zoneDetails = st_zones st,
                            r_services = allServices \<rparr>))))"

section \<open>Over-commit metrics (src/utils/common.ts)\<close>

text \<open>
  The application's copy of common.ts, whose metrics are scalars or ranges. A value of
  type \<open>number | ResourceRange\<close> is a \<open>numberOrRange\<close>; the ratios are rational
  numbers here.
\<close>

datatype RiskLevel = RiskNone | RiskLow | RiskMedium | RiskHigh

datatype numberOrRange = Scalar rat | Range rat rat

record NodeOverCommitMetrics =
  requestedCPU :: rat
  requestedMemory :: rat
  m_limitCPU :: numberOrRange
  m_limitMemory :: numberOrRange
  cpuOverCommitRatio :: numberOrRange
  memoryOverCommitRatio :: numberOrRange
  riskLevel :: RiskLevel

record ClusterOverCommitMetrics =
  totalRequests :: "rat \<times> rat"
  totalLimits :: "numberOrRange \<times> numberOrRange"
  totalAllocatable :: "rat \<times> rat"
  overCommitRatio :: "numberOrRange \<times> numberOrRange"
  c_riskLevel :: RiskLevel

text \<open>Truthiness of an optional number: \<open>undefined\<close> and \<open>0\<close> are falsy.\<close>

definition truthyNumber :: "rat option \<Rightarrow> bool" where
  "truthyNumber x = (case x of None \<Rightarrow> False | Some v \<Rightarrow> v \<noteq> 0)"

text \<open>\<open>a ?? b\<close>.\<close>

definition nullish :: "'a option \<Rightarrow> 'a \<Rightarrow> 'a" where
  "nullish a b = (case a of Some v \<Rightarrow> v | None \<Rightarrow> b)"

definition hasDynamicLimits :: "Service list \<Rightarrow> bool" where
  "hasDynamicLimits services =
     list_ex (\<lambda>service. truthyNumber (minLimitCPU service) \<or> truthyNumber (maxLimitCPU service) \<or>
                         truthyNumber (minLimitMemory service) \<or>
                         truthyNumber (maxLimitMemory service)) services"

definition getMaxValue :: "numberOrRange \<Rightarrow> rat" where
  "getMaxValue v = (case v of Scalar x \<Rightarrow> x | Range lo hi \<Rightarrow> hi)"

definition calculateNodeOverCommit :: "kubelet \<Rightarrow> Node \<Rightarrow> Service list \<Rightarrow> NodeOverCommitMetrics" where
  "calculateNodeOverCommit K node services =
     (let kubeletCPU = getNodeKubeletCPURequirements K (cpuUnits node);
          kubeletMemory = getNodeKubeletMemoryRequirements K (n_memory node);
          availableCPU = cpuUnits node - kubeletCPU;
          availableMemory = n_memory node - kubeletMemory;
          requestedCPU' = fold (\<lambda>service sum. sum + requiredCPU service) services 0;
          requestedMemory' = fold (\<lambda>service sum. sum + requiredMemory service) services 0;
          dynamic = hasDynamicLimits services;
          minLimitCPU' = fold (\<lambda>service sum. sum +
             nullish (minLimitCPU service) (nullish (limitCPU service) (requiredCPU service)))
             services 0;
          maxLimitCPU' = fold (\<lambda>service sum. sum +
             nullish (maxLimitCPU service) (nullish (limitCPU service) (requiredCPU service)))
             services 0;
          minLimitMemory' = fold (\<lambda>service sum. sum +
             nullish (minLimitMemory service)
               (nullish (limitMemory service) (requiredMemory service))) services 0;
          maxLimitMemory' = fold (\<lambda>service sum. sum +
             nullish (maxLimitMemory service)
               (nullish (limitMemory service) (requiredMemory service))) services 0;
          limitCPU' = (if dynamic then Range minLimitCPU' maxLimitCPU' else Scalar maxLimitCPU');
          limitMemory' = (if dynamic then Range minLimitMemory' maxLimitMemory'
                          else Scalar maxLimitMemory');
          minCpuRatio = (if availableCPU > 0 then minLimitCPU' / availableCPU else 1);
          maxCpuRatio = (if availableCPU > 0 then maxLimitCPU' / availableCPU else 1);
          minMemoryRatio = (if availableMemory > 0 then minLimitMemory' / availableMemory else 1);
          maxMemoryRatio = (if availableMemory > 0 then maxLimitMemory' / availableMemory else 1);
          cpuRatio = (if dynamic then Range minCpuRatio maxCpuRatio else Scalar maxCpuRatio);
          memoryRatio = (if dynamic then Range minMemoryRatio maxMemoryRatio
                         else Scalar maxMemoryRatio);
          maxRatio = max maxCpuRatio maxMemoryRatio;
          risk = (if maxRatio \<le> 1 then RiskNone
                  else if maxRatio \<le> 2 then RiskLow
                  else if maxRatio \<le> 4 then RiskMedium
                  else RiskHigh)
      in \<lparr> requestedCPU = requestedCPU', requestedMemory = requestedMemory',
           m_limitCPU = limitCPU', m_limitMemory = limitMemory',
           cpuOverCommitRatio = cpuRatio, memoryOverCommitRatio = memoryRatio,
           riskLevel = risk \<rparr>)"

text \<open>
  \<open>placementCounts[service.id] || 0\<close> is the number of occurrences of the id in the
  \<open>services\<close> lists of all nodes, and 0 for a service without id.
\<close>

definition placementCount :: "Node list \<Rightarrow> Service \<Rightarrow> rat" where
  "placementCount nodes service =
     (case s_id service of
        None \<Rightarrow> 0
      | Some i \<Rightarrow> of_nat (count_list (concat (map n_services nodes)) i))"

definition calculateClusterOverCommit ::
  "kubelet \<Rightarrow> Node list \<Rightarrow> Service list \<Rightarrow> ClusterOverCommitMetrics" where
  "calculateClusterOverCommit K nodes services =
     (let allocatable = fold (\<lambda>node (accCpu, accMemory).
             (accCpu + (cpuUnits node - getNodeKubeletCPURequirements K (cpuUnits node)),
              accMemory + (n_memory node - getNodeKubeletMemoryRequirements K (n_memory node))))
             nodes (0, 0);
          dynamic = hasDynamicLimits services;
          (reqCpu, reqMemory, minTotalLimitCPU, maxTotalLimitCPU, minTotalLimitMemory,
             maxTotalLimitMemory) =
            fold (\<lambda>service (rc, rm, minC, maxC, minM, maxM).
               let n = placementCount nodes service;
                   minCPU = nullish (minLimitCPU service)
                              (nullish (limitCPU service) (requiredCPU service));
                   maxCPU = nullish (maxLimitCPU service)
                              (nullish (limitCPU service) (requiredCPU service));
                   minMemory = nullish (minLimitMemory service)
                                 (nullish (limitMemory service) (requiredMemory service));
                   maxMemory = nullish (maxLimitMemory service)
                                 (nullish (limitMemory service) (requiredMemory service))
               in (rc + requiredCPU service * n, rm + requiredMemory service * n,
                   minC + minCPU * n, maxC + maxCPU * n, minM + minMemory * n,
                   maxM + maxMemory * n))
              services (0, 0, 0, 0, 0, 0);
          limits = (if dynamic then Range minTotalLimitCPU maxTotalLimitCPU
                    else Scalar maxTotalLimitCPU,
                    if dynamic then Range minTotalLimitMemory maxTotalLimitMemory
                    else Scalar maxTotalLimitMemory);
          minCpuRatio = (if fst allocatable > 0 then minTotalLimitCPU / fst allocatable else 1);
          maxCpuRatio = (if fst allocatable > 0 then maxTotalLimitCPU / fst allocatable else 1);
          minMemoryRatio = (if snd allocatable > 0 then minTotalLimitMemory / snd allocatable
                            else 1);
          maxMemoryRatio = (if snd allocatable > 0 then maxTotalLimitMemory / snd allocatable
                            else 1);
          ratio = (if dynamic then Range minCpuRatio maxCpuRatio else Scalar maxCpuRatio,
                   if dynamic then Range minMemoryRatio maxMemoryRatio
                   else Scalar maxMemoryRatio);
          maxRatio = max maxCpuRatio maxMemoryRatio;
          risk = (if maxRatio \<le> 1 then RiskNone
                  else if maxRatio \<le> 2 then RiskLow
                  else if maxRatio \<le> 4 then RiskMedium
                  else RiskHigh)
      in \<lparr> totalRequests = (reqCpu, reqMemory), totalLimits = limits,
           totalAllocatable = allocatable, overCommitRatio = ratio, c_riskLevel = risk \<rparr>)"

section \<open>The properties of the specification\<close>

text \<open>
  The services placed on a node: one for each entry of \<open>node.services\<close>, so a service
  whose id the node lists twice is placed twice.
\<close>

definition placedServices :: "Node \<Rightarrow> Service list \<Rightarrow> Service list" where
  "placedServices node services =
     List.map_filter (\<lambda>i. find (\<lambda>s. s_id s = Some i) services) (n_services node)"

text \<open>
  The capacity invariant of a node: the requests of the services placed on the node,
  with the kubelet overhead of the node, stay within \<open>cpuUnits\<close> and \<open>memory\<close>; the
  placed services whose name contains \<open>Ceph_OSD\<close> are at most \<open>maxDisks\<close>.
\<close>

definition nodeWithinCapacity :: "kubelet \<Rightarrow> Service list \<Rightarrow> Node \<Rightarrow> bool" where
  "nodeWithinCapacity K services node =
     (let placed = placedServices node services
      in sum_list (map requiredCPU placed) + getNodeKubeletCPURequirements K (cpuUnits node)
           \<le> cpuUnits node \<and>
         sum_list (map requiredMemory placed) +
           getNodeKubeletMemoryRequirements K (n_memory node) \<le> n_memory node \<and>
         int (length (filter (\<lambda>s. includes_str (s_name s) ''Ceph_OSD'') placed))
           \<le> maxDisks node)"

text \<open>
  The anti-affinity invariant of a node: no service placed on it lists the id of
  another service placed on it in its \<open>avoid\<close>.
\<close>

definition nodeAvoidFree :: "Service list \<Rightarrow> Node \<Rightarrow> bool" where
  "nodeAvoidFree services node =
     (let placed = getServicesInNode node services
      in list_all (\<lambda>a. list_all (\<lambda>b. a = b \<or>
                      (case s_id b of None \<Rightarrow> True | Some j \<Rightarrow> j \<notin> set (avoid a))) placed)
           placed)"

text \<open>
  The nodes on which \<open>canNodeAddService\<close> has skipped its checks: control-plane nodes
  that hold a control-plane service.
\<close>

definition controlPlaneExempt :: "Service list \<Rightarrow> Node \<Rightarrow> bool" where
  "controlPlaneExempt services node =
     (isControlPlane node = Some True \<and>
      list_ex isControlPlaneService (getServicesInNode node services))"


text \<open>
  The bundle as section 4.3 of the specification words it: the connected component of
  a service id in the symmetric closure of \<open>runsWith\<close>, restricted to the services of
  the workload.
\<close>

definition spec_runsWith_sym :: "Service list \<Rightarrow> (int \<times> int) set" where
  "spec_runsWith_sym workloadServices =
     (let ids = set (List.map_filter s_id workloadServices);
          R = {(a, b). \<exists>s \<in> set workloadServices.
                 s_id s = Some a \<and> b \<in> set (runsWith s) \<and> b \<in> ids}
      in R \<union> R\<inverse>)"

definition spec_bundle :: "Service list \<Rightarrow> int \<Rightarrow> int set" where
  "spec_bundle workloadServices a = {b. (a, b) \<in> (spec_runsWith_sym workloadServices)\<^sup>*}"

text \<open>
  The minimum viable size as the specification words it, from the totals of one
  bundle and the kubelet overhead of a machine set.
\<close>

definition spec_minCPU :: "kubelet \<Rightarrow> Service list \<Rightarrow> MachineSet \<Rightarrow> int" where
  "spec_minCPU K bundle ms =
     min 200 (\<lceil>(totalCPU (getTotalResourceRequirement bundle False) +
                 getNodeKubeletCPURequirements K (cpu ms)) / 2\<rceil> * 2)"

definition spec_minMem :: "kubelet \<Rightarrow> Service list \<Rightarrow> MachineSet \<Rightarrow> int" where
  "spec_minMem K bundle ms =
     min 512 (\<lceil>(totalMem (getTotalResourceRequirement bundle False) +
                 getNodeKubeletMemoryRequirements K (ms_memory ms)) / 4\<rceil> * 4)"

text \<open>
  A service belongs to the group formed around a candidate when it is the candidate or
  its id is listed in the \<open>runsWith\<close> of the candidate. The groups are free of
  anti-affinity when, around every service, no member lists the id of another member in
  its \<open>avoid\<close>.
\<close>

definition inBundleOf :: "Service \<Rightarrow> Service \<Rightarrow> bool" where
  "inBundleOf c m =
     (m = c \<or> (case s_id m of None \<Rightarrow> False | Some i \<Rightarrow> i \<in> set (runsWith c)))"

definition bundlesAvoidFree :: "Service list \<Rightarrow> bool" where
  "bundlesAvoidFree services =
     list_all (\<lambda>c. list_all (\<lambda>a. list_all (\<lambda>b.
        \<not> inBundleOf c a \<or> \<not> inBundleOf c b \<or> a = b \<or>
        (case s_id b of None \<Rightarrow> True | Some j \<Rightarrow> j \<notin> set (avoid a)))
       services) services) services"

text \<open>
  The group that is placed together around a candidate: the candidate, and the
  services of the same workload that are not yet scheduled and whose ids the candidate
  itself lists in \<open>runsWith\<close>.
\<close>

definition directBundle :: "Workload \<Rightarrow> Service list \<Rightarrow> int list \<Rightarrow> Service \<Rightarrow> Service list" where
  "directBundle workload services scheduledServiceIDs candidate =
     candidate #
     filter (\<lambda>m. case s_id m of
                   None \<Rightarrow> False
                 | Some j \<Rightarrow> j \<in> set (w_services workload) \<and> j \<notin> set scheduledServiceIDs \<and>
                             j \<in> set (runsWith candidate) \<and> s_id m \<noteq> s_id candidate)
       services"

text \<open>
  Placements are the \<open>services\<close> lists of the nodes, in the order of the nodes. One
  replica of a group is placed whole on a single node: its ids are appended to the list
  of one existing node, or they are the list of one new node. \<open>placeReplicas\<close> lists
  the placements that \<open>n\<close> replicas can lead to.
\<close>

definition placeOnce :: "int list \<Rightarrow> int list list \<Rightarrow> int list list list" where
  "placeOnce ids placed =
     map (\<lambda>k. placed[k := placed ! k @ ids]) [0..<length placed] @ [placed @ [ids]]"

primrec placeReplicas :: "nat \<Rightarrow> int list \<Rightarrow> int list list \<Rightarrow> int list list list" where
  "placeReplicas 0 ids placed = [placed]"
| "placeReplicas (Suc n) ids placed = concat (map (placeReplicas n ids) (placeOnce ids placed))"

text \<open>
  The placements of a workload: its services are visited in order; a service already
  scheduled is skipped; otherwise its group is marked as scheduled and placed once for
  every zone that \<open>getMaxZones\<close> counts for the group. The workloads of a sizing are
  placed one after the other.
\<close>

fun placeWorkload ::
  "Workload \<Rightarrow> Service list \<Rightarrow> Service list \<Rightarrow> int list \<Rightarrow> int list list \<Rightarrow> int list list list" where
  "placeWorkload workload services [] scheduledServiceIDs placed = [placed]"
| "placeWorkload workload services (candidate # rest) scheduledServiceIDs placed =
     (case s_id candidate of
        None \<Rightarrow> placeWorkload workload services rest scheduledServiceIDs placed
      | Some i \<Rightarrow>
          if i \<in> set scheduledServiceIDs
          then placeWorkload workload services rest scheduledServiceIDs placed
          else
            let members = directBundle workload services scheduledServiceIDs candidate;
                ids = List.map_filter s_id members
            in concat (map (placeWorkload workload services rest (scheduledServiceIDs @ ids))
                         (placeReplicas (nat (getMaxZones members)) ids placed)))"

primrec placeWorkloads :: "Workload list \<Rightarrow> Service list \<Rightarrow> int list list \<Rightarrow> int list list list" where
  "placeWorkloads [] services placed = [placed]"
| "placeWorkloads (workload # rest) services placed =
     concat (map (placeWorkloads rest services)
               (placeWorkload workload services
                  (filter (\<lambda>service. case s_id service of None \<Rightarrow> False
                             | Some i \<Rightarrow> i \<in> set (w_services workload)) services)
                  [] placed))"


text \<open>
  The over-commit ratios as section 4.7 of the specification words them: limits over
  what is available after the kubelet overhead. The limit of a service is its
  \<open>maxLimit\<close>, defaulting to its \<open>limit\<close>, defaulting to its request; for the cluster
  every service counts once per placement, against the sum of what is available on the
  nodes. The application reports the ratio 1 when nothing is available.
\<close>

definition spec_maxLimitCPU :: "Service \<Rightarrow> rat" where
  "spec_maxLimitCPU service =
     (case maxLimitCPU service of
        Some v \<Rightarrow> v
      | None \<Rightarrow> (case limitCPU service of Some v \<Rightarrow> v | None \<Rightarrow> requiredCPU service))"

definition spec_maxLimitMemory :: "Service \<Rightarrow> rat" where
  "spec_maxLimitMemory service =
     (case maxLimitMemory service of
        Some v \<Rightarrow> v
      | None \<Rightarrow> (case limitMemory service of Some v \<Rightarrow> v | None \<Rightarrow> requiredMemory service))"

definition spec_ratio :: "rat \<Rightarrow> rat \<Rightarrow> rat" where
  "spec_ratio limits available = (if 0 < available then limits / available else 1)"

definition spec_nodeCpuRatio :: "kubelet \<Rightarrow> Node \<Rightarrow> Service list \<Rightarrow> rat" where
  "spec_nodeCpuRatio K node services =
     spec_ratio (sum_list (map spec_maxLimitCPU services))
       (cpuUnits node - getNodeKubeletCPURequirements K (cpuUnits node))"

definition spec_nodeMemoryRatio :: "kubelet \<Rightarrow> Node \<Rightarrow> Service list \<Rightarrow> rat" where
  "spec_nodeMemoryRatio K node services =
     spec_ratio (sum_list (map spec_maxLimitMemory services))
       (n_memory node - getNodeKubeletMemoryRequirements K (n_memory node))"

definition spec_placements :: "Node list \<Rightarrow> Service \<Rightarrow> rat" where
  "spec_placements nodes service =
     (case s_id service of
        None \<Rightarrow> 0
      | Some i \<Rightarrow> of_nat (sum_list (map (\<lambda>n. count_list (n_services n) i) nodes)))"

definition spec_clusterCpuRatio :: "kubelet \<Rightarrow> Node list \<Rightarrow> Service list \<Rightarrow> rat" where
  "spec_clusterCpuRatio K nodes services =
     spec_ratio (sum_list (map (\<lambda>s. spec_maxLimitCPU s * spec_placements nodes s) services))
       (sum_list (map (\<lambda>n. cpuUnits n - getNodeKubeletCPURequirements K (cpuUnits n)) nodes))"

definition spec_clusterMemoryRatio :: "kubelet \<Rightarrow> Node list \<Rightarrow> Service list \<Rightarrow> rat" where
  "spec_clusterMemoryRatio K nodes services =
     spec_ratio (sum_list (map (\<lambda>s. spec_maxLimitMemory s * spec_placements nodes s) services))
       (sum_list (map (\<lambda>n. n_memory n - getNodeKubeletMemoryRequirements K (n_memory n)) nodes))"

section \<open>Auxiliary notions\<close>




section \<open>Concrete inputs\<close>

text \<open>
  Modelled from the spec: utils/kubelet.ts is not among the sources, and section 6.2
  of the specification gives the two kubelet functions at two calibration points only:
  \<open>(0.11 cpu, 5.23 GB)\<close> at \<open>(16 cpu, 64 GB)\<close> and \<open>(0.09 cpu, 1.77 GB)\<close> at
  \<open>(8 cpu, 32 GB)\<close>. The instance below has these values there. The machine sets of
  the concrete inputs have these two sizes, so that no other value is ever read.
\<close>

definition kubeletAtCalibration :: kubelet where
  "kubeletAtCalibration =
     \<lparr> getNodeKubeletCPURequirements =
         (\<lambda>c. if c = 16 then 11 / 100 else if c = 8 then 9 / 100 else 0),
       getNodeKubeletMemoryRequirements =
         (\<lambda>m. if m = 64 then 523 / 100 else if m = 32 then 177 / 100 else 0) \<rparr>"

text \<open>The counters of a freshly loaded module; no platform table (machine sets are given).\<close>

definition freshCounters :: counters where
  "freshCounters =
     \<lparr> zoneIdCounter = 0, nodeIdCounter = 0, workloadIdCounter = 0, serviceIdCounter = 0 \<rparr>"

definition noPlatformData :: "string \<Rightarrow> Instance list option" where
  "noPlatformData = (\<lambda>_. None)"

text \<open>A service (descriptor) without limits; a workload descriptor with \<open>count = 1\<close>.\<close>

definition plainService ::
  "int option \<Rightarrow> string \<Rightarrow> rat \<Rightarrow> rat \<Rightarrow> int \<Rightarrow> 'r list \<Rightarrow> 'r list \<Rightarrow> 'r service_of" where
  "plainService i nm c m z rw av =
     \<lparr> s_id = i, s_name = nm, requiredCPU = c, requiredMemory = m,
       limitCPU = None, limitMemory = None, minLimitCPU = None, maxLimitCPU = None,
       minLimitMemory = None, maxLimitMemory = None, s_zones = z, runsWith = rw, avoid = av \<rparr>"

definition plainWorkload :: "int option \<Rightarrow> string \<Rightarrow> string list \<Rightarrow> 's list \<Rightarrow> 's workload_of" where
  "plainWorkload i nm um ss =
     \<lparr> w_id = i, w_name = nm, count = 1, usesMachines = um, w_services = ss,
       allowControlPlane = None, requireControlPlane = None \<rparr>"

definition plainMachineSet :: "string \<Rightarrow> rat \<Rightarrow> rat \<Rightarrow> MachineSet" where
  "plainMachineSet nm c m =
     \<lparr> ms_name = nm, cpu = c, ms_memory = m, ms_instanceName = nm, numberOfDisks = 4,
       ms_onlyFor = [], label = ''Worker'', ms_allowWorkloadScheduling = None,
       ms_controlPlaneReserved = None \<rparr>"

definition plainNode :: "int \<Rightarrow> string \<Rightarrow> rat \<Rightarrow> rat \<Rightarrow> int list \<Rightarrow> Node" where
  "plainNode i nm c m ss =
     \<lparr> n_id = i, maxDisks = 4, cpuUnits = c, n_memory = m, machineSet = nm, n_services = ss,
       n_instanceName = nm, n_onlyFor = [], isControlPlane = Some False,
       n_allowWorkloadScheduling = None, n_controlPlaneReserved = None \<rparr>"

text \<open>
  A control-plane workload on a control-plane machine set of 8 cores and 32 GB:
  \<open>etcd\<close> (5 cores, 8 GB, avoiding \<open>kube-apiserver\<close>) and \<open>kube-apiserver\<close> (5 cores,
  8 GB). The node that \<open>getNode\<close> creates for it, holding both services.
\<close>

definition controlPlaneMachineSet :: MachineSet where
  "controlPlaneMachineSet = plainMachineSet ''controlPlane'' 8 32"


definition controlPlaneServices :: "Service list" where
  "controlPlaneServices =
     [plainService (Some 1) ''etcd'' 5 8 1 [] [2],
      plainService (Some 2) ''kube-apiserver'' 5 8 1 [] []]"

definition controlPlaneNode :: Node where
  "controlPlaneNode =
     (plainNode 1 ''controlPlane'' 8 32 [1, 2])
       \<lparr> isControlPlane := Some True, n_allowWorkloadScheduling := Some False,
         n_controlPlaneReserved := Some (2, 4) \<rparr>"

definition controlPlaneWorkloadObject :: Workload where
  "controlPlaneWorkloadObject = plainWorkload (Some 1) ''cp'' [''controlPlane''] [1, 2]"


text \<open>
  A worker machine set of 8 cores and 32 GB, two independent services of 2 cores and
  4 GB owned by one workload, a zone with one node that holds the first service, and a
  service that no workload owns.
\<close>

definition workerMachineSet :: MachineSet where
  "workerMachineSet = plainMachineSet ''worker'' 8 32"

definition workerServices :: "Service list" where
  "workerServices =
     [plainService (Some 1) ''A'' 2 4 1 [] [], plainService (Some 2) ''B'' 2 4 1 [] []]"

definition workerWorkloadObject :: Workload where
  "workerWorkloadObject = plainWorkload (Some 1) ''w'' [] [1, 2]"

definition workerNode :: Node where
  "workerNode = plainNode 1 ''worker'' 8 32 [1]"

definition workerZone :: Zone where
  "workerZone = \<lparr> z_id = 1, z_nodes = [1] \<rparr>"

definition workerState :: SchedulerState where
  "workerState =
     \<lparr> st_zones = [workerZone], st_nodes = [workerNode], st_usedZonesId = [],
       st_counters = freshCounters\<lparr>zoneIdCounter := 1, nodeIdCounter := 1\<rparr> \<rparr>"

definition strayService :: Service where
  "strayService = plainService (Some 7) ''stray'' 1 1 1 [] []"

text \<open>
  A chain of co-placement: \<open>A\<close> runs with \<open>B\<close>, \<open>B\<close> runs with \<open>C\<close>; 3 cores
  and 4 GB each.
\<close>

definition chainServices :: "Service list" where
  "chainServices =
     [plainService (Some 1) ''A'' 3 4 1 [2] [], plainService (Some 2) ''B'' 3 4 1 [3] [],
      plainService (Some 3) ''C'' 3 4 1 [] []]"




text \<open>
  Three workloads of one service each, the first with \<open>zones = 3\<close>; the services,
  zones and nodes when the third workload is scheduled (the used zones are \<open>[3]\<close>
  then), and the sizing returned.
\<close>

definition rankWorkloads :: "WorkloadDescriptor list" where
  "rankWorkloads =
     [plainWorkload None ''w1'' [] [plainService None ''A'' 1 1 3 [] []],
      plainWorkload None ''w2'' [] [plainService None ''B'' 1 1 1 [] []],
      plainWorkload None ''w3'' [] [plainService None ''C'' 1 1 1 [] []]]"

definition rankServices :: "Service list" where
  "rankServices =
     [plainService (Some 1) ''A'' 1 1 3 [] [], plainService (Some 2) ''B'' 1 1 1 [] [],
      plainService (Some 3) ''C'' 1 1 1 [] []]"

definition rankZones :: "Zone list" where
  "rankZones = [\<lparr> z_id = 1, z_nodes = [1] \<rparr>, \<lparr> z_id = 2, z_nodes = [2] \<rparr>,
                \<lparr> z_id = 3, z_nodes = [3] \<rparr>]"

definition rankNodes :: "Node list" where
  "rankNodes = [plainNode 1 ''worker'' 8 32 [1], plainNode 2 ''worker'' 8 32 [1],
                plainNode 3 ''worker'' 8 32 [1, 2]]"

definition rankSizing :: ClusterSizing where
  "rankSizing =
     \<lparr> nodeCount = 3, r_zones = 3, r_totalCPU = 24, r_totalMemory = 96,
       r_nodes = [plainNode 1 ''worker'' 8 32 [1, 3], plainNode 2 ''worker'' 8 32 [1],
                  plainNode 3 ''worker'' 8 32 [1, 2]],
       r_zoneDetails = rankZones, r_services = rankServices \<rparr>"

text \<open>
  A workload of two independent services, of 20 and 5 cores, on a machine set of 16
  cores and 64 GB, and the message of the error that \<open>size\<close> throws for it.
\<close>

definition largeMachineSet :: MachineSet where
  "largeMachineSet = plainMachineSet ''large'' 16 64"

definition batchWorkload :: WorkloadDescriptor where
  "batchWorkload =
     plainWorkload None ''batch'' []
       [plainService None ''A'' 20 10 1 [] [], plainService None ''B'' 5 10 1 [] []]"

definition batchServices :: "Service list" where
  "batchServices =
     [plainService (Some 1) ''A'' 20 10 1 [] [], plainService (Some 2) ''B'' 5 10 1 [] []]"

definition batchWorkloadObject :: Workload where
  "batchWorkloadObject = plainWorkload (Some 1) ''batch'' [] [1, 2]"

definition batchMessage :: string where
  "batchMessage = ''Workload '' @ [CHR 0x22] @ ''batch'' @ [CHR 0x22] @
     '' is not schedulable. All available MachineSets are too small to run this workload. '' @
     ''Minimum required: at least 26 CPU and 28 GB memory.''"

text \<open>
  A workload of one service on the worker machine set; the sizing returned when all
  four counters are \<open>i - 1\<close> at the call.
\<close>

definition soloWorkload :: WorkloadDescriptor where
  "soloWorkload = plainWorkload None ''w'' [] [plainService None ''A'' 2 4 1 [] []]"

definition soloSizing :: "int \<Rightarrow> ClusterSizing" where
  "soloSizing i =
     \<lparr> nodeCount = 1, r_zones = 1, r_totalCPU = 8, r_totalMemory = 32,
       r_nodes = [plainNode i ''worker'' 8 32 [i]],
       r_zoneDetails = [\<lparr> z_id = i, z_nodes = [i] \<rparr>],
       r_services = [plainService (Some i) ''A'' 2 4 1 [] []] \<rparr>"

definition allCounters :: "int \<Rightarrow> counters" where
  "allCounters i =
     \<lparr> zoneIdCounter = i, nodeIdCounter = i, workloadIdCounter = i, serviceIdCounter = i \<rparr>"

text \<open>A service with a dynamic limit range, and one with static limits.\<close>

definition dynamicService :: Service where
  "dynamicService =
     (plainService (Some 1) ''vm'' 2 8 1 [] [])
       \<lparr> minLimitCPU := Some 4, maxLimitCPU := Some 8,
         minLimitMemory := Some 16, maxLimitMemory := Some 32 \<rparr>"

definition staticService :: Service where
  "staticService =
     (plainService (Some 2) ''vm'' 2 8 1 [] []) \<lparr> limitCPU := Some 80, limitMemory := Some 32 \<rparr>"






text \<open>
  A workload in which \<open>B\<close> has two zones and the others one: both replicas of \<open>B\<close>
  come to the node of zone 2, and \<open>C\<close> joins them there.
\<close>

definition repeatedWorkload :: WorkloadDescriptor where
  "repeatedWorkload =
     plainWorkload None ''w'' []
       [plainService None ''A'' 1 1 1 [] [], plainService None ''B'' 3 1 2 [] [],
        plainService None ''D'' 1 1 1 [] [], plainService None ''C'' 3 1 1 [] []]"

definition repeatedSizing :: ClusterSizing where
  "repeatedSizing =
     \<lparr> nodeCount = 2, r_zones = 2, r_totalCPU = 16, r_totalMemory = 64,
       r_nodes = [plainNode 1 ''worker'' 8 32 [1, 3], plainNode 2 ''worker'' 8 32 [2, 2, 4]],
       r_zoneDetails = [\<lparr> z_id = 1, z_nodes = [1] \<rparr>, \<lparr> z_id = 2, z_nodes = [2] \<rparr>],
       r_services = [plainService (Some 1) ''A'' 1 1 1 [] [], plainService (Some 2) ''B'' 3 1 2 [] [],
                     plainService (Some 3) ''D'' 1 1 1 [] [],
                     plainService (Some 4) ''C'' 3 1 1 [] []] \<rparr>"

text \<open>
  A service of 10 cores, with a machine set of 8 cores listed before one of 16: the
  feasibility analysis finds the second able to run it, the scheduler creates the node
  from the first.
\<close>

definition smallMachineSet :: MachineSet where
  "smallMachineSet = plainMachineSet ''small'' 8 32"

definition heavyWorkload :: WorkloadDescriptor where
  "heavyWorkload = plainWorkload None ''w'' [] [plainService None ''A'' 10 4 1 [] []]"

definition heavySizing :: ClusterSizing where
  "heavySizing =
     \<lparr> nodeCount = 1, r_zones = 1, r_totalCPU = 8, r_totalMemory = 32,
       r_nodes = [plainNode 1 ''small'' 8 32 [1]],
       r_zoneDetails = [\<lparr> z_id = 1, z_nodes = [1] \<rparr>],
       r_services = [plainService (Some 1) ''A'' 10 4 1 [] []] \<rparr>"

text \<open>
  A service that runs with the service it avoids: they are placed together.
\<close>

definition clingyWorkload :: WorkloadDescriptor where
  "clingyWorkload =
     plainWorkload None ''w'' []
       [plainService None ''A'' 2 4 1 [''B''] [''B''], plainService None ''B'' 2 4 1 [] []]"

definition clingySizing :: ClusterSizing where
  "clingySizing =
     \<lparr> nodeCount = 1, r_zones = 1, r_totalCPU = 8, r_totalMemory = 32,
       r_nodes = [plainNode 1 ''worker'' 8 32 [1, 2]],
       r_zoneDetails = [\<lparr> z_id = 1, z_nodes = [1] \<rparr>],
       r_services = [plainService (Some 1) ''A'' 2 4 1 [2] [2],
                     plainService (Some 2) ''B'' 2 4 1 [] []] \<rparr>"

text \<open>
  A workload in which \<open>A\<close> runs with \<open>B\<close> and \<open>B\<close> with \<open>C\<close>, with 5, 2 and 5
  cores: \<open>A\<close> and \<open>B\<close> fill one node, \<open>C\<close> gets another.
\<close>

definition coupledWorkload :: WorkloadDescriptor where
  "coupledWorkload =
     plainWorkload None ''w'' []
       [plainService None ''A'' 5 4 1 [''B''] [], plainService None ''B'' 2 4 1 [''C''] [],
        plainService None ''C'' 5 4 1 [] []]"

definition coupledServices :: "Service list" where
  "coupledServices =
     [plainService (Some 1) ''A'' 5 4 1 [2] [], plainService (Some 2) ''B'' 2 4 1 [3] [],
      plainService (Some 3) ''C'' 5 4 1 [] []]"

definition coupledWorkloadObject :: Workload where
  "coupledWorkloadObject = plainWorkload (Some 1) ''w'' [] [1, 2, 3]"

definition coupledSizing :: ClusterSizing where
  "coupledSizing =
     \<lparr> nodeCount = 2, r_zones = 1, r_totalCPU = 16, r_totalMemory = 64,
       r_nodes = [plainNode 1 ''worker'' 8 32 [1, 2], plainNode 2 ''worker'' 8 32 [3]],
       r_zoneDetails = [\<lparr> z_id = 1, z_nodes = [1, 2] \<rparr>],
       r_services = coupledServices \<rparr>"





section \<open>Basic facts\<close>

lemma set_insert_js: "set (insert_js cmp x xs) = insert x (set xs)"
  by (induction xs) auto

lemma set_sort_js: "set (sort_js cmp xs) = set xs"
  by (induction xs) (auto simp: sort_js_def set_insert_js)

lemma set_map_filter: "set (List.map_filter f xs) = {y. \<exists>x \<in> set xs. f x = Some y}"
  by (induction xs) (auto simp: List.map_filter_simps split: option.splits)







lemma sortNodesWithLeastConsumption_viable:
  assumes "sortNodesWithLeastConsumption K nodes services candidateServices workloads machineSets
             = n # rest"
  shows "n \<in> set nodes \<and>
         list_all (\<lambda>candidate. canNodeAddService K n candidate services workloads machineSets)
           candidateServices"
proof -
  have "n \<in> set (sortNodesWithLeastConsumption K nodes services candidateServices workloads
                   machineSets)"
    using assms by simp
  then show ?thesis
    by (simp add: sortNodesWithLeastConsumption_def set_sort_js)
qed






section \<open>Capacity of nodes\<close>



text \<open>
  The capacity invariant also fails without any control-plane service: both replicas
  of \<open>B\<close> and \<open>C\<close> are on node 2, which are 9 cores of requests on 8 cores;
  \<open>canNodeAddService\<close> admitted \<open>C\<close> because it counts \<open>B\<close> once.
\<close>

theorem size_repeated_service_over_capacity:
  "ClusterSizer_size kubeletAtCalibration noPlatformData freshCounters [repeatedWorkload]
     ''BareMetal'' (Some [workerMachineSet]) =
     (\<lparr> zoneIdCounter = 2, nodeIdCounter = 2, workloadIdCounter = 1, serviceIdCounter = 4 \<rparr>,
      Inr repeatedSizing) \<and>
   n_services (r_nodes repeatedSizing ! 1) = [2, 2, 4] \<and>
   map requiredCPU (placedServices (r_nodes repeatedSizing ! 1) (r_services repeatedSizing)) =
     [3, 3, 3] \<and>
   cpuUnits (r_nodes repeatedSizing ! 1) = 8 \<and>
   isControlPlane (r_nodes repeatedSizing ! 1) = Some False \<and>
   \<not> nodeWithinCapacity kubeletAtCalibration (r_services repeatedSizing)
       (r_nodes repeatedSizing ! 1)"
  by code_simp

text \<open>
  The capacity invariant fails as well when the machine set that the scheduler takes
  for the nodes of a workload is not one that the feasibility analysis found able to
  run it: the service of 10 cores is accepted because of the machine set of 16 cores,
  and placed on a node of 8.
\<close>

theorem size_unvalidated_machine_set_over_capacity:
  "ClusterSizer_size kubeletAtCalibration noPlatformData freshCounters [heavyWorkload]
     ''BareMetal'' (Some [smallMachineSet, largeMachineSet]) =
     (\<lparr> zoneIdCounter = 1, nodeIdCounter = 1, workloadIdCounter = 1, serviceIdCounter = 1 \<rparr>,
      Inr heavySizing) \<and>
   map (\<lambda>w. snd (isWorkloadSchedulable kubeletAtCalibration (r_services heavySizing)
                    [smallMachineSet, largeMachineSet] w))
     [plainWorkload (Some 1) ''w'' [] [1]] = [[largeMachineSet]] \<and>
   getMachineSetForWorkload (plainWorkload (Some 1) ''w'' [] [1])
     [smallMachineSet, largeMachineSet] = Some smallMachineSet \<and>
   \<not> nodeWithinCapacity kubeletAtCalibration (r_services heavySizing)
       (hd (r_nodes heavySizing))"
  by code_simp

section \<open>Anti-affinity\<close>







text \<open>
  The anti-affinity invariant also fails on a worker node when a service runs with the
  service that it avoids: the members of a group are not checked against one another.
\<close>

theorem size_group_violates_avoid:
  "ClusterSizer_size kubeletAtCalibration noPlatformData freshCounters [clingyWorkload]
     ''BareMetal'' (Some [workerMachineSet]) =
     (\<lparr> zoneIdCounter = 1, nodeIdCounter = 1, workloadIdCounter = 1, serviceIdCounter = 2 \<rparr>,
      Inr clingySizing) \<and>
   \<not> bundlesAvoidFree (r_services clingySizing) \<and>
   \<not> controlPlaneExempt (r_services clingySizing) (hd (r_nodes clingySizing)) \<and>
   \<not> nodeAvoidFree (r_services clingySizing) (hd (r_nodes clingySizing))"
  by code_simp




section \<open>Co-placement bundles\<close>

lemma updateFirst_split:
  assumes "x \<in> set xs" and "P x"
  shows "\<exists>pre n post. xs = pre @ n # post \<and> P n \<and> updateFirst P f xs = pre @ f n # post"
  using assms
proof (induction xs)
  case Nil
  then show ?case by simp
next
  case (Cons y ys)
  show ?case
  proof (cases "P y")
    case True
    then have "y # ys = [] @ y # ys \<and> P y \<and> updateFirst P f (y # ys) = [] @ f y # ys"
      by simp
    then show ?thesis by blast
  next
    case False
    with Cons obtain pre n post
      where "ys = pre @ n # post" "P n" "updateFirst P f ys = pre @ f n # post"
      by auto
    with False
    have "y # ys = (y # pre) @ n # post \<and> P n \<and>
          updateFirst P f (y # ys) = (y # pre) @ f n # post"
      by simp
    then show ?thesis by blast
  qed
qed

lemma addServiceToZone_atomic:
  assumes run: "addServiceToZone K c zone nodes services bundle workloads machineSets =
                  Inr ((nodes', zone'), c')"
    and first: "bundle = first # others" "s_id first = Some i"
    and owned: "\<exists>w \<in> set workloads. i \<in> set (w_services w)"
  shows "(\<exists>pre n post. nodes = pre @ n # post \<and>
            nodes' = pre @ n\<lparr>n_services := n_services n @ List.map_filter s_id bundle\<rparr> # post) \<or>
         (\<exists>n. nodes' = nodes @ [n] \<and> n_services n = List.map_filter s_id bundle)"
proof (cases "sortNodesWithLeastConsumption K
                (filter (\<lambda>node. n_id node \<in> set (z_nodes zone)) nodes) services
                bundle workloads machineSets")
  case Nil
  from owned first
  have "find (\<lambda>wl. case s_id first of None \<Rightarrow> False | Some i \<Rightarrow> i \<in> set (w_services wl))
          workloads \<noteq> None"
    by (auto simp: find_None_iff)
  with run Nil first
  have "\<exists>n. nodes' = nodes @ [n] \<and> n_services n = List.map_filter s_id bundle"
    by (auto simp: addServiceToZone_def Let_def getNode_def split: option.splits)
  then show ?thesis ..
next
  case (Cons nodeToRun rest)
  let ?f = "\<lambda>n. n\<lparr>n_services := n_services n @ List.map_filter s_id bundle\<rparr>"
  from sortNodesWithLeastConsumption_viable [OF Cons] have "nodeToRun \<in> set nodes" by auto
  then obtain pre n post where "nodes = pre @ n # post"
    "updateFirst (\<lambda>n. n_id n = n_id nodeToRun) ?f nodes = pre @ ?f n # post"
    using updateFirst_split [of nodeToRun nodes "\<lambda>n. n_id n = n_id nodeToRun" ?f] by auto
  moreover from run Cons
  have "nodes' = updateFirst (\<lambda>n. n_id n = n_id nodeToRun) ?f nodes"
    by (simp add: addServiceToZone_def Let_def)
  ultimately show ?thesis by auto
qed

lemma bundle_ids:
  assumes "s_id candidate = Some i"
  shows "set (List.map_filter s_id (getCoplacedServices candidate pool)) =
         insert i {j \<in> set (runsWith candidate). \<exists>m \<in> set pool. s_id m = Some j}"
  using assms by (auto simp: set_map_filter getCoplacedServices_def split: option.splits)

text \<open>
  C2 fails as stated: with \<open>A\<close> running with \<open>B\<close> and \<open>B\<close> with \<open>C\<close>, the bundle
  that the scheduler forms around \<open>A\<close> (no service being scheduled yet) is \<open>A\<close> and
  \<open>B\<close>, while \<open>C\<close> is in the connected component of \<open>A\<close>.
\<close>

theorem getCoplacedServices_not_connected_component:
  "List.map_filter s_id (getCoplacedServices (chainServices ! 0) chainServices) = [1, 2] \<and>
   3 \<in> spec_bundle chainServices 1"
proof
  show "List.map_filter s_id (getCoplacedServices (chainServices ! 0) chainServices) = [1, 2]"
    by code_simp
next
  have "(1, 2) \<in> spec_runsWith_sym chainServices"
    by (simp add: spec_runsWith_sym_def chainServices_def plainService_def
          List.map_filter_simps Let_def)
  moreover have "(2, 3) \<in> spec_runsWith_sym chainServices"
    by (simp add: spec_runsWith_sym_def chainServices_def plainService_def
          List.map_filter_simps Let_def)
  ultimately have "(1, 3) \<in> (spec_runsWith_sym chainServices)\<^sup>*"
    by (meson rtrancl.rtrancl_into_rtrancl rtrancl.rtrancl_refl)
  then show "3 \<in> spec_bundle chainServices 1"
    by (simp add: spec_bundle_def)
qed

text \<open>
  Each replica of a group is placed on a single node: all its ids are appended to the
  services of one existing node, or are the services of one new node, and no other
  node changes.
\<close>

lemma scheduleReplica_bundle_on_one_node:
  assumes run: "scheduleReplica K workload services machineSets
                  (getCoplacedServices candidate pool) st = Inr st'"
    and cand: "s_id candidate = Some i" and owned: "i \<in> set (w_services workload)"
  shows "set (List.map_filter s_id (getCoplacedServices candidate pool)) =
           insert i {j \<in> set (runsWith candidate). \<exists>m \<in> set pool. s_id m = Some j} \<and>
         ((\<exists>pre n post. st_nodes st = pre @ n # post \<and>
             st_nodes st' = pre @ n\<lparr>n_services := n_services n @
                 List.map_filter s_id (getCoplacedServices candidate pool)\<rparr> # post) \<or>
          (\<exists>n. st_nodes st' = st_nodes st @ [n] \<and>
             n_services n = List.map_filter s_id (getCoplacedServices candidate pool)))"
proof
  show "set (List.map_filter s_id (getCoplacedServices candidate pool)) =
           insert i {j \<in> set (runsWith candidate). \<exists>m \<in> set pool. s_id m = Some j}"
    using cand by (rule bundle_ids)
next
  let ?members = "getCoplacedServices candidate pool"
  have first: "?members = candidate # tl ?members"
    by (simp add: getCoplacedServices_def)
  obtain bestZone used
    where choice: "chooseZone K (st_zones st) (st_nodes st) services ?members (st_usedZonesId st)
                   = (bestZone, used)"
    by (cases "chooseZone K (st_zones st) (st_nodes st) services ?members (st_usedZonesId st)")
  show "(\<exists>pre n post. st_nodes st = pre @ n # post \<and>
             st_nodes st' = pre @ n\<lparr>n_services := n_services n @
                 List.map_filter s_id ?members\<rparr> # post) \<or>
          (\<exists>n. st_nodes st' = st_nodes st @ [n] \<and>
             n_services n = List.map_filter s_id ?members)"
  proof (cases bestZone)
    case None
    with run choice cand owned have False
      by (simp add: scheduleReplica_def getCoplacedServices_def Let_def split: if_splits)
    then show ?thesis ..
  next
    case (Some zone)
    with run choice
    have "(case addServiceToZone K (st_counters st) zone (st_nodes st) services ?members
                  [workload] machineSets of
             Inl e \<Rightarrow> Inl e
           | Inr ((nodes', zone'), c') \<Rightarrow>
               Inr \<lparr> st_zones = updateFirst (\<lambda>z. z_id z = z_id zone') (\<lambda>_. zone') (st_zones st),
                     st_nodes = nodes', st_usedZonesId = used, st_counters = c' \<rparr>) = Inr st'"
      by (simp add: scheduleReplica_def)
    then obtain nodes' zone' c'
      where add: "addServiceToZone K (st_counters st) zone (st_nodes st) services ?members
                    [workload] machineSets = Inr ((nodes', zone'), c')"
        and st': "st_nodes st' = nodes'"
      by (auto split: sum.splits)
    from add first cand have
      "(\<exists>pre n post. st_nodes st = pre @ n # post \<and>
            nodes' = pre @ n\<lparr>n_services := n_services n @ List.map_filter s_id ?members\<rparr> # post) \<or>
       (\<exists>n. nodes' = st_nodes st @ [n] \<and> n_services n = List.map_filter s_id ?members)"
      using owned by (intro addServiceToZone_atomic [OF add first cand]) simp
    with st' show ?thesis by simp
  qed
qed

lemma scheduleService_head:
  assumes run: "scheduleService K workload services machineSets serviceObjects candidate
                  (st, sched) = Inr (st', sched')"
    and cand: "s_id candidate = Some i" and head: "i \<notin> set sched"
  shows "times_js (nat (getMaxZones (getCoplacedServices candidate
                 (filter (\<lambda>service. case s_id service of None \<Rightarrow> False
                            | Some j \<Rightarrow> j \<notin> set sched) serviceObjects))))
              (scheduleReplica K workload services machineSets
                 (getCoplacedServices candidate
                   (filter (\<lambda>service. case s_id service of None \<Rightarrow> False
                              | Some j \<Rightarrow> j \<notin> set sched) serviceObjects))) st = Inr st' \<and>
         sched' = sched @ List.map_filter s_id (getCoplacedServices candidate
                   (filter (\<lambda>service. case s_id service of None \<Rightarrow> False
                              | Some j \<Rightarrow> j \<notin> set sched) serviceObjects))"
proof -
  have ne: "getCoplacedServices candidate
              (filter (\<lambda>service. case s_id service of None \<Rightarrow> False
                         | Some j \<Rightarrow> j \<notin> set sched) serviceObjects) \<noteq> []"
    by (simp add: getCoplacedServices_def)
  from run cand head
  have "(case times_js (nat (getMaxZones (getCoplacedServices candidate
                 (filter (\<lambda>service. case s_id service of None \<Rightarrow> False
                            | Some j \<Rightarrow> j \<notin> set sched) serviceObjects))))
              (scheduleReplica K workload services machineSets
                 (getCoplacedServices candidate
                   (filter (\<lambda>service. case s_id service of None \<Rightarrow> False
                              | Some j \<Rightarrow> j \<notin> set sched) serviceObjects))) st of
           Inl e \<Rightarrow> Inl e
         | Inr t \<Rightarrow> Inr (t, sched @ List.map_filter s_id (getCoplacedServices candidate
                   (filter (\<lambda>service. case s_id service of None \<Rightarrow> False
                              | Some j \<Rightarrow> j \<notin> set sched) serviceObjects)))) =
        (Inr (st', sched') :: (error \<times> counters) + (SchedulerState \<times> int list))"
    by (simp add: scheduleService_def Let_def ne)
  then show ?thesis by (auto split: sum.splits)
qed

lemma directBundle_pool:
  "getCoplacedServices candidate
     (filter (\<lambda>service. case s_id service of None \<Rightarrow> False | Some j \<Rightarrow> j \<notin> set sched)
        (filter (\<lambda>service. case s_id service of None \<Rightarrow> False
                   | Some i \<Rightarrow> i \<in> set (w_services workload)) services)) =
   directBundle workload services sched candidate"
proof -
  have "filter (\<lambda>service. (case s_id service of None \<Rightarrow> False
                            | Some i \<Rightarrow> i \<in> set (runsWith candidate)) \<and>
                           s_id service \<noteq> s_id candidate)
          (filter (\<lambda>service. case s_id service of None \<Rightarrow> False | Some j \<Rightarrow> j \<notin> set sched)
             (filter (\<lambda>service. case s_id service of None \<Rightarrow> False
                        | Some i \<Rightarrow> i \<in> set (w_services workload)) services)) =
        filter (\<lambda>m. case s_id m of
                   None \<Rightarrow> False
                 | Some j \<Rightarrow> j \<in> set (w_services workload) \<and> j \<notin> set sched \<and>
                             j \<in> set (runsWith candidate) \<and> s_id m \<noteq> s_id candidate)
          services"
    unfolding filter_filter by (rule filter_cong) (auto split: option.splits)
  then show ?thesis by (simp add: getCoplacedServices_def directBundle_def)
qed

lemma placeOnce_existing:
  assumes "nodes = pre @ n # post"
  shows "map n_services (pre @ n\<lparr>n_services := n_services n @ ids\<rparr> # post)
           \<in> set (placeOnce ids (map n_services nodes))"
proof -
  let ?placed = "map n_services nodes"
  have k: "length pre < length ?placed" using assms by simp
  have "map n_services (pre @ n\<lparr>n_services := n_services n @ ids\<rparr> # post) =
        ?placed[length pre := ?placed ! length pre @ ids]"
    using assms by (simp add: list_update_append nth_append)
  moreover from k have "?placed[length pre := ?placed ! length pre @ ids]
           \<in> set (placeOnce ids ?placed)"
    by (auto simp: placeOnce_def)
  ultimately show ?thesis by simp
qed

lemma placeOnce_new:
  assumes "n_services n = ids"
  shows "map n_services (nodes @ [n]) \<in> set (placeOnce ids (map n_services nodes))"
  using assms by (simp add: placeOnce_def)

lemma scheduleReplica_placeOnce:
  assumes run: "scheduleReplica K workload services machineSets
                  (getCoplacedServices candidate pool) st = Inr st'"
    and cand: "s_id candidate = Some i" and owned: "i \<in> set (w_services workload)"
  shows "map n_services (st_nodes st')
           \<in> set (placeOnce (List.map_filter s_id (getCoplacedServices candidate pool))
                    (map n_services (st_nodes st)))"
proof -
  let ?ids = "List.map_filter s_id (getCoplacedServices candidate pool)"
  from scheduleReplica_bundle_on_one_node [OF run cand owned]
  have "(\<exists>pre n post. st_nodes st = pre @ n # post \<and>
             st_nodes st' = pre @ n\<lparr>n_services := n_services n @ ?ids\<rparr> # post) \<or>
          (\<exists>n. st_nodes st' = st_nodes st @ [n] \<and> n_services n = ?ids)"
    by blast
  then show ?thesis
  proof
    assume "\<exists>pre n post. st_nodes st = pre @ n # post \<and>
             st_nodes st' = pre @ n\<lparr>n_services := n_services n @ ?ids\<rparr> # post"
    then obtain pre n post where "st_nodes st = pre @ n # post"
      "st_nodes st' = pre @ n\<lparr>n_services := n_services n @ ?ids\<rparr> # post"
      by blast
    with placeOnce_existing [of "st_nodes st" pre n post ?ids] show ?thesis by simp
  next
    assume "\<exists>n. st_nodes st' = st_nodes st @ [n] \<and> n_services n = ?ids"
    then obtain n where "st_nodes st' = st_nodes st @ [n]" "n_services n = ?ids" by blast
    with placeOnce_new [of n ?ids "st_nodes st"] show ?thesis by simp
  qed
qed

lemma times_scheduleReplica_placeReplicas:
  assumes run: "times_js R (scheduleReplica K workload services machineSets
                  (getCoplacedServices candidate pool)) st = Inr st'"
    and cand: "s_id candidate = Some i" and owned: "i \<in> set (w_services workload)"
  shows "map n_services (st_nodes st')
           \<in> set (placeReplicas R (List.map_filter s_id (getCoplacedServices candidate pool))
                    (map n_services (st_nodes st)))"
  using run
proof (induction R arbitrary: st)
  case 0
  then show ?case by simp
next
  case (Suc R)
  from Suc.prems obtain st1
    where first: "scheduleReplica K workload services machineSets
                    (getCoplacedServices candidate pool) st = Inr st1"
      and rest: "times_js R (scheduleReplica K workload services machineSets
                    (getCoplacedServices candidate pool)) st1 = Inr st'"
    by (auto split: sum.splits)
  from scheduleReplica_placeOnce [OF first cand owned] Suc.IH [OF rest]
  show ?case by auto
qed

lemma scheduleService_places:
  assumes run: "scheduleService K workload services machineSets
                  (filter (\<lambda>service. case s_id service of None \<Rightarrow> False
                             | Some i \<Rightarrow> i \<in> set (w_services workload)) services)
                  candidate (st, sched) = Inr (st', sched')"
    and cand: "s_id candidate = Some i" and head: "i \<notin> set sched"
    and owned: "i \<in> set (w_services workload)"
  shows "sched' = sched @ List.map_filter s_id (directBundle workload services sched candidate) \<and>
         map n_services (st_nodes st')
           \<in> set (placeReplicas (nat (getMaxZones (directBundle workload services sched candidate)))
                    (List.map_filter s_id (directBundle workload services sched candidate))
                    (map n_services (st_nodes st)))"
proof -
  from scheduleService_head [OF run cand head]
  have loop: "times_js (nat (getMaxZones (getCoplacedServices candidate
                 (filter (\<lambda>service. case s_id service of None \<Rightarrow> False
                            | Some j \<Rightarrow> j \<notin> set sched)
                    (filter (\<lambda>service. case s_id service of None \<Rightarrow> False
                               | Some i \<Rightarrow> i \<in> set (w_services workload)) services)))))
              (scheduleReplica K workload services machineSets
                 (getCoplacedServices candidate
                   (filter (\<lambda>service. case s_id service of None \<Rightarrow> False
                              | Some j \<Rightarrow> j \<notin> set sched)
                      (filter (\<lambda>service. case s_id service of None \<Rightarrow> False
                                 | Some i \<Rightarrow> i \<in> set (w_services workload)) services))))
              st = Inr st'"
    and sched': "sched' = sched @ List.map_filter s_id (getCoplacedServices candidate
                   (filter (\<lambda>service. case s_id service of None \<Rightarrow> False
                              | Some j \<Rightarrow> j \<notin> set sched)
                      (filter (\<lambda>service. case s_id service of None \<Rightarrow> False
                                 | Some i \<Rightarrow> i \<in> set (w_services workload)) services)))"
    by simp_all
  from times_scheduleReplica_placeReplicas [OF loop cand owned] sched'
  show ?thesis by (simp only: directBundle_pool)
qed

lemma forEach_scheduleService_places:
  assumes run: "forEach_js (scheduleService K workload services machineSets
                  (filter (\<lambda>service. case s_id service of None \<Rightarrow> False
                             | Some i \<Rightarrow> i \<in> set (w_services workload)) services))
                  xs (st, sched) = Inr (st', sched')"
    and owned: "\<forall>s \<in> set xs. \<forall>i. s_id s = Some i \<longrightarrow> i \<in> set (w_services workload)"
  shows "map n_services (st_nodes st')
           \<in> set (placeWorkload workload services xs sched (map n_services (st_nodes st)))"
  using assms
proof (induction xs arbitrary: st sched)
  case Nil
  then show ?case by simp
next
  case (Cons x xs)
  let ?objects = "filter (\<lambda>service. case s_id service of None \<Rightarrow> False
                             | Some i \<Rightarrow> i \<in> set (w_services workload)) services"
  from Cons.prems(1) obtain st1 sched1
    where first: "scheduleService K workload services machineSets ?objects x (st, sched)
                    = Inr (st1, sched1)"
      and rest: "forEach_js (scheduleService K workload services machineSets ?objects) xs
                   (st1, sched1) = Inr (st', sched')"
    by (auto split: sum.splits)
  from Cons.prems(2) have owned': "\<forall>s \<in> set xs. \<forall>i. s_id s = Some i \<longrightarrow>
                                     i \<in> set (w_services workload)"
    by simp
  note ih = Cons.IH [OF rest owned']
  show ?case
  proof (cases "s_id x = None \<or> (\<exists>i. s_id x = Some i \<and> i \<in> set sched)")
    case True
    with first have "st1 = st \<and> sched1 = sched"
      by (auto simp: scheduleService_def)
    with ih True show ?thesis by auto
  next
    case False
    then obtain i where i: "s_id x = Some i" "i \<notin> set sched" by auto
    with Cons.prems(2) have "i \<in> set (w_services workload)" by simp
    from scheduleService_places [OF first i this] ih i
    show ?thesis by (auto simp: Let_def)
  qed
qed

section \<open>A candidate that no workload owns\<close>

text \<open>
  C9 fails as stated: asked to place a service that the workload does not own, the
  scheduler's replica step returns normally, with the zones and nodes it was given.
\<close>

theorem scheduleReplica_no_owner_continues:
  "scheduleReplica kubeletAtCalibration workerWorkloadObject (workerServices @ [strayService])
     [workerMachineSet] [strayService] workerState =
     Inr (workerState\<lparr>st_usedZonesId := [1]\<rparr>)"
  by code_simp

text \<open>
  C9, amended. When no workload owns the first service of the bundle,
  \<open>addServiceToZone\<close> throws nothing: it returns the nodes, the zone and the counters
  it was given, unchanged.
\<close>

theorem addServiceToZone_no_owner_unchanged:
  assumes first: "bundle = first # others"
    and stray: "\<forall>w \<in> set workloads. \<forall>i. s_id first = Some i \<longrightarrow> i \<notin> set (w_services w)"
  shows "addServiceToZone K c zone nodes services bundle workloads machineSets =
           Inr ((nodes, zone), c)"
proof -
  have none: "find (\<lambda>wl. case s_id first of None \<Rightarrow> False | Some i \<Rightarrow> i \<in> set (w_services wl))
          workloads = None"
    using stray by (auto simp: find_None_iff split: option.splits)
  have "\<not> canNodeAddService K n first services workloads machineSets" for n
  proof (cases "s_id first")
    case None
    then show ?thesis by (simp add: canNodeAddService_def)
  next
    case (Some i)
    with stray have "find (\<lambda>workload. i \<in> set (w_services workload)) workloads = None"
      by (auto simp: find_None_iff)
    with Some show ?thesis by (simp add: canNodeAddService_def)
  qed
  then have "sortNodesWithLeastConsumption K
                (filter (\<lambda>node. n_id node \<in> set (z_nodes zone)) nodes) services
                bundle workloads machineSets = []"
    using first by (simp add: sortNodesWithLeastConsumption_def sort_js_def)
  with none first show ?thesis
    by (simp add: addServiceToZone_def)
qed

theorem addServiceToZone_no_owner_unchanged_witness:
  "addServiceToZone kubeletAtCalibration freshCounters workerZone [workerNode]
     (workerServices @ [strayService]) [strayService] [workerWorkloadObject]
     [workerMachineSet] =
     Inr (([workerNode], workerZone), freshCounters)"
proof (rule addServiceToZone_no_owner_unchanged)
  show "[strayService] = strayService # []"
    by simp
  show "\<forall>w \<in> set [workerWorkloadObject]. \<forall>i.
          s_id strayService = Some i \<longrightarrow> i \<notin> set (w_services w)"
    by (simp add: strayService_def plainService_def workerWorkloadObject_def
          plainWorkload_def)
qed

section \<open>Control-plane admission\<close>

text \<open>
  C10. On a node with \<open>isControlPlane = true\<close>, a candidate whose name contains a
  control-plane marker (case-insensitively) is admitted by \<open>canNodeAddService\<close> as
  soon as its id is defined, a workload owns it, and that workload's \<open>usesMachines\<close>
  is empty or contains the node's machine set: the taint, anti-affinity and capacity
  checks are never reached.
\<close>

theorem canNodeAddService_control_plane_admits:
  assumes "isControlPlane node = Some True"
    and "isControlPlaneService candidate"
    and "s_id candidate = Some i"
    and "find (\<lambda>workload. i \<in> set (w_services workload)) workloads = Some w"
    and "usesMachines w = [] \<or> machineSet node \<in> set (usesMachines w)"
  shows "canNodeAddService K node candidate allServices workloads machineSets"
  using assms by (auto simp: canNodeAddService_def truthy_def Let_def)

text \<open>
  At the control-plane node that already holds \<open>etcd\<close> (5 of 8 cores), the candidate
  \<open>kube-apiserver\<close> (5 cores) is admitted although the node cannot support it and
  although \<open>etcd\<close> avoids it.
\<close>

theorem canNodeAddService_control_plane_admits_witness:
  "canNodeAddService kubeletAtCalibration (controlPlaneNode\<lparr>n_services := [1]\<rparr>)
     (controlPlaneServices ! 1) controlPlaneServices [controlPlaneWorkloadObject]
     [controlPlaneMachineSet] \<and>
   \<not> canNodeSupportRequirements kubeletAtCalibration
       (getTotalResourceRequirement [controlPlaneServices ! 1] False)
       (getTotalResourceRequirement
          (getServicesInNode (controlPlaneNode\<lparr>n_services := [1]\<rparr>) controlPlaneServices) False)
       (controlPlaneNode\<lparr>n_services := [1]\<rparr>) \<and>
   2 \<in> set (avoid (controlPlaneServices ! 0)) \<and>
   controlPlaneServices ! 0 \<in>
     set (getServicesInNode (controlPlaneNode\<lparr>n_services := [1]\<rparr>) controlPlaneServices)"
proof -
  have "canNodeAddService kubeletAtCalibration (controlPlaneNode\<lparr>n_services := [1]\<rparr>)
     (controlPlaneServices ! 1) controlPlaneServices [controlPlaneWorkloadObject]
     [controlPlaneMachineSet]"
  proof (rule canNodeAddService_control_plane_admits
      [where i = 2 and w = controlPlaneWorkloadObject])
    show "isControlPlane (controlPlaneNode\<lparr>n_services := [1]\<rparr>) = Some True"
      by code_simp
    show "isControlPlaneService (controlPlaneServices ! 1)"
      by code_simp
    show "s_id (controlPlaneServices ! 1) = Some 2"
      by code_simp
    show "find (\<lambda>workload. 2 \<in> set (w_services workload)) [controlPlaneWorkloadObject] =
            Some controlPlaneWorkloadObject"
      by code_simp
    show "usesMachines controlPlaneWorkloadObject = [] \<or>
          machineSet (controlPlaneNode\<lparr>n_services := [1]\<rparr>) \<in>
            set (usesMachines controlPlaneWorkloadObject)"
      by code_simp
  qed
  moreover have "\<not> canNodeSupportRequirements kubeletAtCalibration
       (getTotalResourceRequirement [controlPlaneServices ! 1] False)
       (getTotalResourceRequirement
          (getServicesInNode (controlPlaneNode\<lparr>n_services := [1]\<rparr>) controlPlaneServices) False)
       (controlPlaneNode\<lparr>n_services := [1]\<rparr>)"
    by code_simp
  moreover have "2 \<in> set (avoid (controlPlaneServices ! 0))"
    by code_simp
  moreover have "controlPlaneServices ! 0 \<in>
     set (getServicesInNode (controlPlaneNode\<lparr>n_services := [1]\<rparr>) controlPlaneServices)"
    by code_simp
  ultimately show ?thesis by blast
qed

section \<open>Zones of the replicas\<close>











text \<open>
  C3. For a replica of a bundle with candidate zones that have capable nodes,
  \<open>sortBestZones\<close> returns them best first (most capable nodes, then higher id) and
  the scheduler takes the element that \<open>pop()\<close> removes, which is the last one. When
  the third of three workloads is scheduled, zones 1 and 2 are candidates with one
  capable node each: the ranking is zone 2, zone 1, and the bundle goes to zone 1.
\<close>

theorem chooseZone_takes_last_ranked_zone:
  "ClusterSizer_size kubeletAtCalibration noPlatformData freshCounters rankWorkloads
     ''BareMetal'' (Some [workerMachineSet]) =
     (\<lparr> zoneIdCounter = 3, nodeIdCounter = 3, workloadIdCounter = 3, serviceIdCounter = 3 \<rparr>,
      Inr rankSizing) \<and>
   sortBestZones kubeletAtCalibration (filter (\<lambda>z. z_id z \<notin> set [3]) rankZones) rankNodes
     rankServices [rankServices ! 2] = [rankZones ! 1, rankZones ! 0] \<and>
   chooseZone kubeletAtCalibration rankZones rankNodes rankServices [rankServices ! 2] [3] =
     (Some (rankZones ! 0), [3, 1])"
  by code_simp




section \<open>The error for a workload that is not schedulable\<close>

lemma fold_add_sum_list:
  fixes a :: "'b::comm_monoid_add"
  shows "fold (\<lambda>s sum. sum + f s) xs a = a + sum_list (map f xs)"
  by (induction xs arbitrary: a) (simp_all add: add.assoc)

lemma validate_first_failure:
  assumes "list_all (\<lambda>w'. fst (isWorkloadSchedulable K services machineSets w')) before"
    and "\<not> fst (isWorkloadSchedulable K services machineSets w)"
  shows "validateWorkloadsCanSchedule K (before @ w # after) services machineSets =
           Some (Error (notSchedulableMessage K w services machineSets))"
  using assms by (induction before) (auto simp: split_beta)

lemma validate_all_schedulable:
  assumes "list_all (\<lambda>w'. fst (isWorkloadSchedulable K services machineSets w')) workloads"
  shows "validateWorkloadsCanSchedule K workloads services machineSets = None"
  using assms by (induction workloads) (auto simp: split_beta)

text \<open>
  C6 fails as stated: for the two-service workload on the 16-core machine set the
  message names the workload but not the target machine set \<open>large\<close>, and its sizes
  (26 CPU, 28 GB) are computed from both services of the workload, while the bundle
  that fails is the first service alone, whose totals give 22 CPU and 16 GB.
\<close>

theorem size_message_without_machine_set:
  "ClusterSizer_size kubeletAtCalibration noPlatformData freshCounters [batchWorkload]
     ''BareMetal'' (Some [largeMachineSet]) =
     (\<lparr> zoneIdCounter = 0, nodeIdCounter = 0, workloadIdCounter = 1, serviceIdCounter = 2 \<rparr>,
      Inl (Error batchMessage)) \<and>
   targetMachineSet batchWorkloadObject [largeMachineSet] = Some largeMachineSet \<and>
   \<not> includes_str batchMessage (ms_name largeMachineSet) \<and>
   getAllCoplacedServices batchServices = [[batchServices ! 0], [batchServices ! 1]] \<and>
   \<not> areServicesSchedulable kubeletAtCalibration [batchServices ! 0] largeMachineSet \<and>
   areServicesSchedulable kubeletAtCalibration [batchServices ! 1] largeMachineSet \<and>
   spec_minCPU kubeletAtCalibration [batchServices ! 0] largeMachineSet = 22 \<and>
   spec_minMem kubeletAtCalibration [batchServices ! 0] largeMachineSet = 16"
  by code_simp

text \<open>
  C6, amended. When an expanded workload is not schedulable, \<open>size\<close> returns no
  sizing: it throws an error for the first such workload. The message names the
  workload and states a minimum size, \<open>min(200, ceil((CPU + kubeletCPU) / 2) * 2)\<close> and
  \<open>min(512, ceil((memory + kubeletMemory) / 4) * 4)\<close>, where CPU and memory are the
  totals of all the services of the workload and the kubelet overhead is that of the
  target machine set (of size 0 when there is none).
\<close>

theorem size_not_schedulable_error:
  assumes expand: "fold expandWorkload workloads (([], []), c) =
                     ((before @ w # after, services), c1)"
    and ok: "list_all (\<lambda>w'. fst (isWorkloadSchedulable K services machineSets w')) before"
    and bad: "\<not> fst (isWorkloadSchedulable K services machineSets w)"
  shows "ClusterSizer_size K platformData c workloads platform (Some machineSets) =
     (c1, Inl (Error
        (''Workload '' @ [CHR 0x22] @ w_name w @ [CHR 0x22] @
         '' is not schedulable. All available MachineSets are too small to run this workload. '' @
         ''Minimum required: at least '' @
         numberToString (min 200
            (\<lceil>(sum_list (map requiredCPU
                   (filter (\<lambda>s. case s_id s of None \<Rightarrow> False
                              | Some i \<Rightarrow> i \<in> set (w_services w)) services)) +
                getNodeKubeletCPURequirements K
                  (case targetMachineSet w machineSets of None \<Rightarrow> 0 | Some ms \<Rightarrow> cpu ms)) / 2\<rceil>
             * 2)) @
         '' CPU and '' @
         numberToString (min 512
            (\<lceil>(sum_list (map requiredMemory
                   (filter (\<lambda>s. case s_id s of None \<Rightarrow> False
                              | Some i \<Rightarrow> i \<in> set (w_services w)) services)) +
                getNodeKubeletMemoryRequirements K
                  (case targetMachineSet w machineSets of None \<Rightarrow> 0 | Some ms \<Rightarrow> ms_memory ms))
               / 4\<rceil> * 4)) @
         '' GB memory.'')))"
proof -
  have "validateWorkloadsCanSchedule K (before @ w # after) services machineSets =
          Some (Error (notSchedulableMessage K w services machineSets))"
    using ok bad by (rule validate_first_failure)
  with expand
  have "ClusterSizer_size K platformData c workloads platform (Some machineSets) =
          (c1, Inl (Error (notSchedulableMessage K w services machineSets)))"
    by (simp add: ClusterSizer_size_def)
  then show ?thesis
    by (simp add: notSchedulableMessage_def Let_def fold_add_sum_list)
qed

theorem size_not_schedulable_error_witness:
  "fold expandWorkload [batchWorkload] (([], []), freshCounters) =
     (([] @ batchWorkloadObject # [], batchServices),
      freshCounters\<lparr>workloadIdCounter := 1, serviceIdCounter := 2\<rparr>) \<and>
   \<not> fst (isWorkloadSchedulable kubeletAtCalibration batchServices [largeMachineSet]
            batchWorkloadObject) \<and>
   ClusterSizer_size kubeletAtCalibration noPlatformData freshCounters [batchWorkload]
     ''BareMetal'' (Some [largeMachineSet]) =
     (freshCounters\<lparr>workloadIdCounter := 1, serviceIdCounter := 2\<rparr>,
      Inl (Error batchMessage))"
proof -
  have expand: "fold expandWorkload [batchWorkload] (([], []), freshCounters) =
     (([] @ batchWorkloadObject # [], batchServices),
      freshCounters\<lparr>workloadIdCounter := 1, serviceIdCounter := 2\<rparr>)"
    by code_simp
  have ok: "list_all (\<lambda>w'. fst (isWorkloadSchedulable kubeletAtCalibration batchServices
                               [largeMachineSet] w')) []"
    by simp
  have bad: "\<not> fst (isWorkloadSchedulable kubeletAtCalibration batchServices [largeMachineSet]
                     batchWorkloadObject)"
    by code_simp
  note thrown = size_not_schedulable_error
    [OF expand ok bad, of noPlatformData "''BareMetal''"]
  have "ClusterSizer_size kubeletAtCalibration noPlatformData freshCounters [batchWorkload]
     ''BareMetal'' (Some [largeMachineSet]) =
     (freshCounters\<lparr>workloadIdCounter := 1, serviceIdCounter := 2\<rparr>,
      Inl (Error batchMessage))"
    unfolding thrown by code_simp
  with expand bad show ?thesis by simp
qed

section \<open>Ids across successive calls\<close>

lemma times_js_invariant:
  assumes "times_js n f s = Inr s'" and "I s"
    and "\<And>t t'. I t \<Longrightarrow> f t = Inr t' \<Longrightarrow> I t'"
  shows "I s'"
  using assms by (induction n arbitrary: s) (auto split: sum.splits)

lemma forEach_js_invariant:
  assumes "forEach_js f xs s = Inr s'" and "I s"
    and "\<And>x t t'. x \<in> set xs \<Longrightarrow> I t \<Longrightarrow> f x t = Inr t' \<Longrightarrow> I t'"
  shows "I s'"
  using assms
proof (induction xs arbitrary: s)
  case Nil
  then show ?case by simp
next
  case (Cons x xs)
  from Cons.prems(1) obtain t where t: "f x s = Inr t" and rest: "forEach_js f xs t = Inr s'"
    by (auto split: sum.splits)
  have "I t" using Cons.prems(3) [of x s t] Cons.prems(2) t by simp
  moreover have "\<And>y u u'. y \<in> set xs \<Longrightarrow> I u \<Longrightarrow> f y u = Inr u' \<Longrightarrow> I u'"
    using Cons.prems(3) by (meson list.set_intros(2))
  ultimately show ?case using rest Cons.IH by blast
qed

lemma assignServiceIDs_ids:
  assumes "assignServiceIDs c ds = (ds', c')"
  shows "map s_id ds' = map (\<lambda>k. Some (serviceIdCounter c + 1 + int k)) [0..<length ds] \<and>
         c' = c\<lparr>serviceIdCounter := serviceIdCounter c + int (length ds)\<rparr>"
  using assms
proof (induction ds arbitrary: c ds' c')
  case Nil
  then show ?case by simp
next
  case (Cons d ds)
  obtain rest c1 where rest: "assignServiceIDs (c\<lparr>serviceIdCounter := serviceIdCounter c + 1\<rparr>) ds
                                = (rest, c1)"
    by (cases "assignServiceIDs (c\<lparr>serviceIdCounter := serviceIdCounter c + 1\<rparr>) ds")
  with Cons.prems have ds': "ds' = d\<lparr>s_id := Some (serviceIdCounter c + 1)\<rparr> # rest" and c': "c' = c1"
    by (simp_all add: Let_def)
  from Cons.IH [OF rest]
  have ih: "map s_id rest = map (\<lambda>k. Some (serviceIdCounter c + 1 + 1 + int k)) [0..<length ds]"
    and c1: "c1 = c\<lparr>serviceIdCounter := serviceIdCounter c + 1 + int (length ds)\<rparr>"
    by simp_all
  have "map (\<lambda>k. Some (serviceIdCounter c + 1 + int k)) [0..<length (d # ds)] =
        Some (serviceIdCounter c + 1) #
        map (\<lambda>k. Some (serviceIdCounter c + 1 + 1 + int k)) [0..<length ds]"
  proof -
    have "[0..<length (d # ds)] = 0 # map Suc [0..<length ds]"
      by (simp add: upt_conv_Cons map_Suc_upt del: upt_Suc)
    then show ?thesis by (simp add: comp_def add.assoc)
  qed
  with ds' ih c' c1 show ?case by (simp add: add.assoc)
qed

lemma getWorkloadFromDescriptors_ids:
  assumes "getWorkloadFromDescriptors c workload = ((services, w), c')"
  shows "map s_id services =
           map (\<lambda>k. Some (serviceIdCounter c + 1 + int k)) [0..<length (w_services workload)] \<and>
         serviceIdCounter c' = serviceIdCounter c + int (length (w_services workload)) \<and>
         workloadIdCounter c' = workloadIdCounter c + 1 \<and>
         w_id w = Some (workloadIdCounter c + 1)"
proof -
  obtain ds c1 where a: "assignServiceIDs c (w_services workload) = (ds, c1)"
    by (cases "assignServiceIDs c (w_services workload)")
  from assignServiceIDs_ids [OF a] a assms show ?thesis
    by (auto simp: getWorkloadFromDescriptors_def Let_def comp_def)
qed

lemma expandWorkload_ids:
  assumes "expandWorkload workloadDesc ((ws, ss), c) = ((ws', ss'), c')"
  shows "map s_id ss' = map s_id ss @
           map (\<lambda>k. Some (serviceIdCounter c + 1 + int k)) [0..<length (w_services workloadDesc)] \<and>
         serviceIdCounter c' = serviceIdCounter c + int (length (w_services workloadDesc)) \<and>
         workloadIdCounter c' = workloadIdCounter c + 1"
proof -
  let ?adjusted = "if count workloadDesc > 1
               then workloadDesc\<lparr>w_services :=
                      map (\<lambda>s. s\<lparr>s_zones := count workloadDesc\<rparr>) (w_services workloadDesc)\<rparr>
               else workloadDesc"
  obtain services w c1 where g: "getWorkloadFromDescriptors c ?adjusted = ((services, w), c1)"
    by (cases "getWorkloadFromDescriptors c ?adjusted") auto
  have len: "length (w_services ?adjusted) = length (w_services workloadDesc)"
    by simp
  from g assms have "ss' = ss @ services" "c' = c1"
    by (simp_all add: expandWorkload_def Let_def)
  with getWorkloadFromDescriptors_ids [OF g] len show ?thesis
    by simp
qed

lemma id_block_append:
  "map (\<lambda>k. Some (c + 1 + int k)) [0..<a] @ map (\<lambda>k. Some (c + int a + 1 + int k)) [0..<b] =
   map (\<lambda>k. Some (c + 1 + int k)) [0..<a + b]"
proof -
  have "[0..<a + b] = [0..<a] @ [a..<a + b]"
    by (rule upt_add_eq_append) simp
  also have "[a..<a + b] = map (\<lambda>k. k + a) [0..<b]"
    by (simp add: map_add_upt add.commute)
  finally have split: "[0..<a + b] = [0..<a] @ map (\<lambda>k. k + a) [0..<b]" .
  have "map (\<lambda>k. Some (c + 1 + int k)) (map (\<lambda>k. k + a) [0..<b]) =
        map (\<lambda>k. Some (c + int a + 1 + int k)) [0..<b]"
    by (simp add: comp_def algebra_simps)
  then show ?thesis
    unfolding split map_append by simp
qed

lemma fold_expandWorkload_ids:
  assumes "fold expandWorkload wds ((ws, ss), c) = ((ws', ss'), c')"
  shows "map s_id ss' = map s_id ss @
           map (\<lambda>k. Some (serviceIdCounter c + 1 + int k))
             [0..<sum_list (map (\<lambda>d. length (w_services d)) wds)] \<and>
         serviceIdCounter c' =
           serviceIdCounter c + int (sum_list (map (\<lambda>d. length (w_services d)) wds))"
  using assms
proof (induction wds arbitrary: ws ss c)
  case Nil
  then show ?case by simp
next
  case (Cons d wds)
  obtain ws1 ss1 c1 where step: "expandWorkload d ((ws, ss), c) = ((ws1, ss1), c1)"
    by (metis prod.exhaust)
  with Cons.prems have rest: "fold expandWorkload wds ((ws1, ss1), c1) = ((ws', ss'), c')"
    by simp
  from expandWorkload_ids [OF step]
  have ss1: "map s_id ss1 = map s_id ss @
           map (\<lambda>k. Some (serviceIdCounter c + 1 + int k)) [0..<length (w_services d)]"
    and c1: "serviceIdCounter c1 = serviceIdCounter c + int (length (w_services d))"
    by simp_all
  let ?a = "length (w_services d)"
  let ?n = "sum_list (map (\<lambda>d. length (w_services d)) wds)"
  from Cons.IH [OF rest]
  have ih: "map s_id ss' = map s_id ss1 @
              map (\<lambda>k. Some (serviceIdCounter c1 + 1 + int k)) [0..<?n]"
    and c': "serviceIdCounter c' = serviceIdCounter c1 + int ?n"
    by simp_all
  have "map s_id ss' = map s_id ss @
          (map (\<lambda>k. Some (serviceIdCounter c + 1 + int k)) [0..<?a] @
           map (\<lambda>k. Some (serviceIdCounter c + int ?a + 1 + int k)) [0..<?n])"
    unfolding ih ss1 c1 by simp
  then have "map s_id ss' = map s_id ss @
          map (\<lambda>k. Some (serviceIdCounter c + 1 + int k)) [0..<?a + ?n]"
    by (simp only: id_block_append)
  with c' c1 show ?case by simp
qed

lemma addServiceToZone_serviceIdCounter:
  assumes "addServiceToZone K c zone nodes services members workloads machineSets = Inr (r, c')"
  shows "serviceIdCounter c' = serviceIdCounter c"
  using assms
  by (auto simp: addServiceToZone_def Let_def getNode_def split: list.splits option.splits)

lemma scheduleReplica_serviceIdCounter:
  assumes "scheduleReplica K workload services machineSets members st = Inr st'"
  shows "serviceIdCounter (st_counters st') = serviceIdCounter (st_counters st)"
proof -
  obtain bestZone used
    where choice: "chooseZone K (st_zones st) (st_nodes st) services members (st_usedZonesId st)
                   = (bestZone, used)"
    by (cases "chooseZone K (st_zones st) (st_nodes st) services members (st_usedZonesId st)")
  show ?thesis
  proof (cases bestZone)
    case None
    with assms choice show ?thesis
      by (auto simp: scheduleReplica_def Let_def split: if_splits list.splits option.splits)
  next
    case (Some zone)
    with assms choice
    have "(case addServiceToZone K (st_counters st) zone (st_nodes st) services members
                  [workload] machineSets of
             Inl e \<Rightarrow> Inl e
           | Inr ((nodes', zone'), c') \<Rightarrow>
               Inr \<lparr> st_zones = updateFirst (\<lambda>z. z_id z = z_id zone') (\<lambda>_. zone') (st_zones st),
                     st_nodes = nodes', st_usedZonesId = used, st_counters = c' \<rparr>) = Inr st'"
      by (simp add: scheduleReplica_def)
    then obtain r c' where "addServiceToZone K (st_counters st) zone (st_nodes st) services
                              members [workload] machineSets = Inr (r, c')"
      and "st_counters st' = c'"
      by (auto split: sum.splits)
    with addServiceToZone_serviceIdCounter show ?thesis by metis
  qed
qed

lemma scheduleService_cases:
  assumes "scheduleService K workload services machineSets serviceObjects candidate (st, sched)
             = Inr (st', sched')"
  shows "(st' = st \<and> sched' = sched) \<or>
         (\<exists>i. s_id candidate = Some i \<and> i \<notin> set sched \<and>
            times_js (nat (getMaxZones (getCoplacedServices candidate
                 (filter (\<lambda>service. case s_id service of None \<Rightarrow> False
                            | Some j \<Rightarrow> j \<notin> set sched) serviceObjects))))
              (scheduleReplica K workload services machineSets
                 (getCoplacedServices candidate
                   (filter (\<lambda>service. case s_id service of None \<Rightarrow> False
                              | Some j \<Rightarrow> j \<notin> set sched) serviceObjects))) st = Inr st' \<and>
            sched' = sched @ List.map_filter s_id (getCoplacedServices candidate
                   (filter (\<lambda>service. case s_id service of None \<Rightarrow> False
                              | Some j \<Rightarrow> j \<notin> set sched) serviceObjects)))"
proof (cases "s_id candidate")
  case None
  with assms show ?thesis by (simp add: scheduleService_def)
next
  case (Some i)
  show ?thesis
  proof (cases "i \<in> set sched")
    case True
    with Some assms show ?thesis by (simp add: scheduleService_def)
  next
    case False
    let ?members = "getCoplacedServices candidate
                   (filter (\<lambda>service. case s_id service of None \<Rightarrow> False
                              | Some j \<Rightarrow> j \<notin> set sched) serviceObjects)"
    have ne: "?members \<noteq> []" by (simp add: getCoplacedServices_def)
    from assms Some False ne
    have "(case times_js (nat (getMaxZones ?members))
                  (scheduleReplica K workload services machineSets ?members) st of
             Inl e \<Rightarrow> Inl e
           | Inr st' \<Rightarrow> Inr (st', sched @ List.map_filter s_id ?members)) = Inr (st', sched')"
      by (simp add: scheduleService_def Let_def)
    then have "times_js (nat (getMaxZones ?members))
                  (scheduleReplica K workload services machineSets ?members) st = Inr st' \<and>
               sched' = sched @ List.map_filter s_id ?members"
      by (cases "times_js (nat (getMaxZones ?members))
                  (scheduleReplica K workload services machineSets ?members) st") simp_all
    with Some False show ?thesis by blast
  qed
qed

lemma scheduleService_serviceIdCounter:
  assumes "scheduleService K workload services machineSets serviceObjects candidate (st, sched)
             = Inr (st', sched')"
  shows "serviceIdCounter (st_counters st') = serviceIdCounter (st_counters st)"
proof -
  have inv: "serviceIdCounter (st_counters t') = serviceIdCounter (st_counters st)"
    if "times_js n (scheduleReplica K workload services machineSets members) st = Inr t'"
    for n members t'
    using that
    by (rule times_js_invariant
          [where I = "\<lambda>t. serviceIdCounter (st_counters t) = serviceIdCounter (st_counters st)"])
       (simp_all add: scheduleReplica_serviceIdCounter)
  from scheduleService_cases [OF assms] inv show ?thesis by blast
qed

lemma createZones_steps:
  "\<exists>zs c'. times_js k
       (\<lambda>(generatedZones, c).
                Inr (generatedZones @ [\<lparr> z_id = zoneIdCounter c + 1, z_nodes = [] \<rparr>],
                     c\<lparr>zoneIdCounter := zoneIdCounter c + 1\<rparr>) :: unit + Zone list \<times> counters)
       (gz, c0) = Inr (zs, c') \<and>
     serviceIdCounter c' = serviceIdCounter c0 \<and> workloadIdCounter c' = workloadIdCounter c0"
proof (induction k arbitrary: gz c0)
  case 0
  then show ?case by simp
next
  case (Suc k)
  from Suc [of "gz @ [\<lparr> z_id = zoneIdCounter c0 + 1, z_nodes = [] \<rparr>]"
              "c0\<lparr>zoneIdCounter := zoneIdCounter c0 + 1\<rparr>"]
  show ?case by simp
qed

lemma createZones_serviceIdCounter:
  "serviceIdCounter (snd (createZones c n)) = serviceIdCounter c"
proof -
  from createZones_steps [of "nat n" "[]" c]
  obtain zs c' where "times_js (nat n)
       (\<lambda>(generatedZones, c).
                Inr (generatedZones @ [\<lparr> z_id = zoneIdCounter c + 1, z_nodes = [] \<rparr>],
                     c\<lparr>zoneIdCounter := zoneIdCounter c + 1\<rparr>) :: unit + Zone list \<times> counters)
       ([], c) = Inr (zs, c')"
    "serviceIdCounter c' = serviceIdCounter c"
    by blast
  then show ?thesis unfolding createZones_def by simp
qed

lemma workloadScheduler_cases:
  assumes "workloadScheduler K c workload services machineSets zones nodes used = Inr st'"
  shows "\<exists>zones0 c0 sched.
           ((zones0, c0) = (zones, c) \<or>
            (\<exists>n. (zones0, c0) = (zones @ fst (createZones c n), snd (createZones c n)))) \<and>
           forEach_js (scheduleService K workload services machineSets
                (filter (\<lambda>service. case s_id service of None \<Rightarrow> False
                           | Some i \<Rightarrow> i \<in> set (w_services workload)) services))
             (filter (\<lambda>service. case s_id service of None \<Rightarrow> False
                        | Some i \<Rightarrow> i \<in> set (w_services workload)) services)
             (\<lparr> st_zones = zones0, st_nodes = nodes, st_usedZonesId = used,
                 st_counters = c0 \<rparr>, []) = Inr (st', sched)"
proof -
  let ?objects = "filter (\<lambda>service. case s_id service of None \<Rightarrow> False
                                     | Some i \<Rightarrow> i \<in> set (w_services workload)) services"
  let ?run = "\<lambda>zones0 c0. forEach_js (scheduleService K workload services machineSets ?objects)
                ?objects
                (\<lparr> st_zones = zones0, st_nodes = nodes, st_usedZonesId = used,
                    st_counters = c0 \<rparr>, [])"
  have finish: ?thesis
    if "(case ?run zones0 c0 of Inl e \<Rightarrow> Inl e | Inr (st, _) \<Rightarrow> Inr st) = Inr st'"
      and "(zones0, c0) = (zones, c) \<or>
            (\<exists>n. (zones0, c0) = (zones @ fst (createZones c n), snd (createZones c n)))"
    for zones0 c0
  proof -
    from that(1) obtain sched where "?run zones0 c0 = Inr (st', sched)"
      by (cases "?run zones0 c0") auto
    with that(2) show ?thesis by blast
  qed
  show ?thesis
  proof (cases "getMaxZones ?objects > int (length zones)")
    case True
    obtain zs c' where cz: "createZones c (getMaxZones ?objects - int (length zones)) = (zs, c')"
      by (cases "createZones c (getMaxZones ?objects - int (length zones))")
    from assms True cz
    have "(case ?run (zones @ zs) c' of Inl e \<Rightarrow> Inl e | Inr (st, _) \<Rightarrow> Inr st) = Inr st'"
      by (simp add: workloadScheduler_def Let_def)
    moreover from cz
    have "\<exists>n. (zones @ zs, c') = (zones @ fst (createZones c n), snd (createZones c n))"
      by (metis fst_conv snd_conv)
    ultimately show ?thesis by (intro finish) auto
  next
    case False
    with assms
    have "(case ?run zones c of Inl e \<Rightarrow> Inl e | Inr (st, _) \<Rightarrow> Inr st) = Inr st'"
      by (simp add: workloadScheduler_def Let_def)
    then show ?thesis by (intro finish) auto
  qed
qed

lemma workloadScheduler_serviceIdCounter:
  assumes "workloadScheduler K c workload services machineSets zones nodes used = Inr st'"
  shows "serviceIdCounter (st_counters st') = serviceIdCounter c"
proof -
  let ?objects = "filter (\<lambda>service. case s_id service of None \<Rightarrow> False
                                     | Some i \<Rightarrow> i \<in> set (w_services workload)) services"
  let ?I = "\<lambda>p :: SchedulerState \<times> int list.
              serviceIdCounter (st_counters (fst p)) = serviceIdCounter c"
  have step: "?I t'" if "?I t"
    "scheduleService K workload services machineSets ?objects x t = Inr t'" for x t t'
    using that scheduleService_serviceIdCounter [of K workload services machineSets ?objects x
        "fst t" "snd t" "fst t'" "snd t'"]
    by simp
  from workloadScheduler_cases [OF assms] obtain zones0 c0 sched where
    zc: "(zones0, c0) = (zones, c) \<or>
            (\<exists>n. (zones0, c0) = (zones @ fst (createZones c n), snd (createZones c n)))"
    and run: "forEach_js (scheduleService K workload services machineSets ?objects) ?objects
             (\<lparr> st_zones = zones0, st_nodes = nodes, st_usedZonesId = used,
                 st_counters = c0 \<rparr>, []) = Inr (st', sched)"
    by blast
  from zc have c0: "serviceIdCounter c0 = serviceIdCounter c"
    by (auto simp: createZones_serviceIdCounter)
  from run have "?I (st', sched)"
    by (rule forEach_js_invariant [where I = ?I]) (use c0 step in auto)
  then show ?thesis by simp
qed

lemma size_success:
  assumes "ClusterSizer_size K platformData c workloads platform machineSetsOpt = (c', Inr r)"
  shows "\<exists>machineSets ws ss c1 st.
           (machineSetsOpt = Some machineSets \<or>
            machineSetsOpt = None \<and>
            getDefaultMachineSets platformData platform = Some machineSets) \<and>
           fold expandWorkload workloads (([], []), c) = ((ws, ss), c1) \<and>
           validateWorkloadsCanSchedule K ws ss machineSets = None \<and>
           forEach_js (\<lambda>workload st.
                workloadScheduler K (st_counters st) workload ss machineSets (st_zones st)
                  (st_nodes st) (st_usedZonesId st)) ws
              \<lparr> st_zones = [], st_nodes = [], st_usedZonesId = [], st_counters = c1 \<rparr> = Inr st \<and>
           c' = st_counters st \<and> r_services r = ss \<and> r_nodes r = st_nodes st \<and>
           r_zoneDetails r = st_zones st"
proof -
  obtain ws ss c1 where expand: "fold expandWorkload workloads (([], []), c) = ((ws, ss), c1)"
    by (metis prod.exhaust)
  from assms obtain machineSets where ms:
    "machineSetsOpt = Some machineSets \<or>
     machineSetsOpt = None \<and> getDefaultMachineSets platformData platform = Some machineSets"
    by (cases machineSetsOpt; cases "getDefaultMachineSets platformData platform")
       (auto simp: ClusterSizer_size_def)
  let ?run = "forEach_js (\<lambda>workload st.
                workloadScheduler K (st_counters st) workload ss machineSets (st_zones st)
                  (st_nodes st) (st_usedZonesId st)) ws
              \<lparr> st_zones = [], st_nodes = [], st_usedZonesId = [], st_counters = c1 \<rparr>"
  from assms ms expand
  have body: "(case validateWorkloadsCanSchedule K ws ss machineSets of
           Some e \<Rightarrow> (c1, Inl e)
         | None \<Rightarrow>
            (case ?run of
               Inl (e, c') \<Rightarrow> (c', Inl e)
             | Inr st \<Rightarrow>
                (st_counters st,
                 Inr \<lparr> nodeCount = length (st_nodes st), r_zones = length (st_zones st),
                       r_totalCPU = fold (\<lambda>n sum. sum + cpuUnits n) (st_nodes st) 0,
                       r_totalMemory = fold (\<lambda>n sum. sum + n_memory n) (st_nodes st) 0,
                       r_nodes = st_nodes st, r_zoneDetails = st_zones st,
                       r_services = ss \<rparr>))) = (c', Inr r)"
    by (auto simp: ClusterSizer_size_def)
  then have valid: "validateWorkloadsCanSchedule K ws ss machineSets = None"
    by (cases "validateWorkloadsCanSchedule K ws ss machineSets") auto
  with body obtain st where "?run = Inr st" "c' = st_counters st" "r_services r = ss"
    "r_nodes r = st_nodes st" "r_zoneDetails r = st_zones st"
    by (cases ?run) auto
  with ms expand valid show ?thesis by blast
qed

lemma size_service_ids:
  assumes "ClusterSizer_size K platformData c workloads platform machineSetsOpt = (c', Inr r)"
  shows "map s_id (r_services r) =
           map (\<lambda>k. Some (serviceIdCounter c + 1 + int k))
             [0..<sum_list (map (\<lambda>d. length (w_services d)) workloads)] \<and>
         serviceIdCounter c' =
           serviceIdCounter c + int (sum_list (map (\<lambda>d. length (w_services d)) workloads))"
proof -
  from size_success [OF assms] obtain machineSets ws ss c1 st where
    expand: "fold expandWorkload workloads (([], []), c) = ((ws, ss), c1)"
    and run: "forEach_js (\<lambda>workload st.
                workloadScheduler K (st_counters st) workload ss machineSets (st_zones st)
                  (st_nodes st) (st_usedZonesId st)) ws
              \<lparr> st_zones = [], st_nodes = [], st_usedZonesId = [], st_counters = c1 \<rparr> = Inr st"
    and res: "c' = st_counters st" "r_services r = ss"
    by blast
  from run have "serviceIdCounter (st_counters st) = serviceIdCounter c1"
    by (rule forEach_js_invariant
          [where I = "\<lambda>t. serviceIdCounter (st_counters t) = serviceIdCounter c1"])
       (simp_all add: workloadScheduler_serviceIdCounter)
  with fold_expandWorkload_ids [OF expand] res show ?thesis by simp
qed

text \<open>
  C7 fails as stated: two successive calls of \<open>size\<close> with the same input, the second
  starting from the counters that the first left, return sizings with different
  service, node and zone ids.
\<close>

theorem size_twice_different_ids:
  "ClusterSizer_size kubeletAtCalibration noPlatformData freshCounters [soloWorkload]
     ''BareMetal'' (Some [workerMachineSet]) = (allCounters 1, Inr (soloSizing 1)) \<and>
   ClusterSizer_size kubeletAtCalibration noPlatformData (allCounters 1) [soloWorkload]
     ''BareMetal'' (Some [workerMachineSet]) = (allCounters 2, Inr (soloSizing 2)) \<and>
   soloSizing 1 \<noteq> soloSizing 2"
  by code_simp

text \<open>
  C7, amended. The id generators are module-level counters that a call continues
  from where the previous call left them. A call that returns a sizing gives the
  \<open>n\<close> services of its input the ids \<open>s + 1, ..., s + n\<close>, where \<open>s\<close> is the service
  counter at the call; a second call with the same input gives them
  \<open>s + n + 1, ..., s + 2n\<close>: the same ids shifted by \<open>n\<close>.
\<close>

theorem successive_calls_shift_service_ids:
  assumes first: "ClusterSizer_size K platformData c workloads platform machineSetsOpt =
                    (c1, Inr r1)"
    and second: "ClusterSizer_size K platformData c1 workloads platform machineSetsOpt =
                    (c2, Inr r2)"
  shows "map s_id (r_services r1) =
           map (\<lambda>k. Some (serviceIdCounter c + 1 + int k))
             [0..<sum_list (map (\<lambda>d. length (w_services d)) workloads)] \<and>
         map s_id (r_services r2) =
           map (\<lambda>k. Some (serviceIdCounter c +
                            int (sum_list (map (\<lambda>d. length (w_services d)) workloads)) +
                            1 + int k))
             [0..<sum_list (map (\<lambda>d. length (w_services d)) workloads)]"
  using size_service_ids [OF first] size_service_ids [OF second] by simp

theorem successive_calls_shift_service_ids_witness:
  "ClusterSizer_size kubeletAtCalibration noPlatformData freshCounters [soloWorkload]
     ''BareMetal'' (Some [workerMachineSet]) = (allCounters 1, Inr (soloSizing 1)) \<and>
   ClusterSizer_size kubeletAtCalibration noPlatformData (allCounters 1) [soloWorkload]
     ''BareMetal'' (Some [workerMachineSet]) = (allCounters 2, Inr (soloSizing 2)) \<and>
   map s_id (r_services (soloSizing 1)) = [Some 1] \<and>
   map s_id (r_services (soloSizing 2)) = [Some 2]"
proof -
  have first: "ClusterSizer_size kubeletAtCalibration noPlatformData freshCounters
     [soloWorkload] ''BareMetal'' (Some [workerMachineSet]) = (allCounters 1, Inr (soloSizing 1))"
    by code_simp
  have second: "ClusterSizer_size kubeletAtCalibration noPlatformData (allCounters 1)
     [soloWorkload] ''BareMetal'' (Some [workerMachineSet]) = (allCounters 2, Inr (soloSizing 2))"
    by code_simp
  from successive_calls_shift_service_ids [OF first second]
  have "map s_id (r_services (soloSizing 1)) = [Some 1] \<and>
        map s_id (r_services (soloSizing 2)) = [Some 2]"
    by (simp add: soloWorkload_def plainWorkload_def freshCounters_def)
  with first second show ?thesis by simp
qed

section \<open>Groups placed together in a whole sizing\<close>

lemma workloadScheduler_places:
  assumes run: "workloadScheduler K c workload services machineSets zones nodes used = Inr st'"
  shows "map n_services (st_nodes st')
           \<in> set (placeWorkload workload services
                    (filter (\<lambda>service. case s_id service of None \<Rightarrow> False
                               | Some i \<Rightarrow> i \<in> set (w_services workload)) services)
                    [] (map n_services nodes))"
proof -
  let ?objects = "filter (\<lambda>service. case s_id service of None \<Rightarrow> False
                                     | Some i \<Rightarrow> i \<in> set (w_services workload)) services"
  from workloadScheduler_cases [OF run] obtain zones0 c0 sched where
    loop: "forEach_js (scheduleService K workload services machineSets ?objects) ?objects
             (\<lparr> st_zones = zones0, st_nodes = nodes, st_usedZonesId = used,
                 st_counters = c0 \<rparr>, []) = Inr (st', sched)"
    by blast
  have "\<forall>s \<in> set ?objects. \<forall>i. s_id s = Some i \<longrightarrow> i \<in> set (w_services workload)"
    by auto
  from forEach_scheduleService_places [OF loop this] show ?thesis by simp
qed

lemma forEach_workloadScheduler_places:
  assumes "forEach_js (\<lambda>workload st.
                workloadScheduler K (st_counters st) workload ss machineSets (st_zones st)
                  (st_nodes st) (st_usedZonesId st)) ws st = Inr st'"
  shows "map n_services (st_nodes st')
           \<in> set (placeWorkloads ws ss (map n_services (st_nodes st)))"
  using assms
proof (induction ws arbitrary: st)
  case Nil
  then show ?case by simp
next
  case (Cons w ws)
  from Cons.prems obtain st1
    where first: "workloadScheduler K (st_counters st) w ss machineSets (st_zones st)
                    (st_nodes st) (st_usedZonesId st) = Inr st1"
      and rest: "forEach_js (\<lambda>workload st.
                workloadScheduler K (st_counters st) workload ss machineSets (st_zones st)
                  (st_nodes st) (st_usedZonesId st)) ws st1 = Inr st'"
    by (auto split: sum.splits)
  from workloadScheduler_places [OF first] Cons.IH [OF rest]
  show ?case by auto
qed

text \<open>
  C2, amended. For every input that \<open>size\<close> accepts, the returned placement (the
  \<open>services\<close> lists of the returned nodes) arises as follows. The workloads are taken
  in order, and the services of a workload in order. A service already scheduled is
  skipped. Otherwise the group around it is formed: the service itself and the services
  of the same workload, not yet scheduled, whose ids it lists itself in \<open>runsWith\<close>
  (one step along \<open>runsWith\<close>, in one direction, no closure). The group is marked as
  scheduled and placed once per zone of the group, each time whole on a single node:
  all its ids are appended to the list of one existing node, or are the list of one new
  node.
\<close>

theorem size_places_direct_bundles_whole:
  assumes run: "ClusterSizer_size K platformData c workloads platform machineSetsOpt =
                  (c', Inr r)"
    and expand: "fold expandWorkload workloads (([], []), c) = ((ws, ss), c1)"
  shows "r_services r = ss \<and>
         map n_services (r_nodes r) \<in> set (placeWorkloads ws ss [])"
proof -
  from size_success [OF run] expand obtain machineSets st where
    loop: "forEach_js (\<lambda>workload st.
                workloadScheduler K (st_counters st) workload ss machineSets (st_zones st)
                  (st_nodes st) (st_usedZonesId st)) ws
              \<lparr> st_zones = [], st_nodes = [], st_usedZonesId = [], st_counters = c1 \<rparr> = Inr st"
    and res: "r_services r = ss" "r_nodes r = st_nodes st"
    by auto
  from forEach_workloadScheduler_places [OF loop] res show ?thesis by simp
qed

text \<open>
  \<open>A\<close> and \<open>B\<close> form the group around \<open>A\<close> and share node 1; \<open>C\<close>, which only
  \<open>B\<close> runs with, is placed on its own.
\<close>

theorem size_places_direct_bundles_whole_witness:
  "ClusterSizer_size kubeletAtCalibration noPlatformData freshCounters [coupledWorkload]
     ''BareMetal'' (Some [workerMachineSet]) =
     (\<lparr> zoneIdCounter = 1, nodeIdCounter = 2, workloadIdCounter = 1, serviceIdCounter = 3 \<rparr>,
      Inr coupledSizing) \<and>
   map s_id (directBundle coupledWorkloadObject coupledServices [] (coupledServices ! 0)) =
     [Some 1, Some 2] \<and>
   map n_services (r_nodes coupledSizing) = [[1, 2], [3]] \<and>
   [[1, 2], [3]] \<in> set (placeWorkloads [coupledWorkloadObject] coupledServices [])"
proof -
  have run: "ClusterSizer_size kubeletAtCalibration noPlatformData freshCounters
     [coupledWorkload] ''BareMetal'' (Some [workerMachineSet]) =
     (\<lparr> zoneIdCounter = 1, nodeIdCounter = 2, workloadIdCounter = 1, serviceIdCounter = 3 \<rparr>,
      Inr coupledSizing)"
    by code_simp
  have expand: "fold expandWorkload [coupledWorkload] (([], []), freshCounters) =
                  (([coupledWorkloadObject], coupledServices),
                   \<lparr> zoneIdCounter = 0, nodeIdCounter = 0, workloadIdCounter = 1,
                      serviceIdCounter = 3 \<rparr>)"
    by code_simp
  have members: "map s_id (directBundle coupledWorkloadObject coupledServices []
                   (coupledServices ! 0)) = [Some 1, Some 2]"
    by code_simp
  have nodes: "map n_services (r_nodes coupledSizing) = [[1, 2], [3]]"
    by code_simp
  from size_places_direct_bundles_whole [OF run expand] nodes
  have "[[1, 2], [3]] \<in> set (placeWorkloads [coupledWorkloadObject] coupledServices [])"
    by simp
  with run members nodes show ?thesis by simp
qed

section \<open>Invariants of the scheduler state\<close>








section \<open>Anti-affinity in a whole sizing\<close>







section \<open>Capacity in a whole sizing\<close>

























section \<open>Risk level\<close>

lemma risk_table:
  fixes m :: rat
  defines "risk \<equiv> (if m \<le> 1 then RiskNone else if m \<le> 2 then RiskLow
                     else if m \<le> 4 then RiskMedium else RiskHigh)"
  shows "(risk = RiskNone \<longleftrightarrow> m \<le> 1) \<and> (risk = RiskLow \<longleftrightarrow> 1 < m \<and> m \<le> 2) \<and>
         (risk = RiskMedium \<longleftrightarrow> 2 < m \<and> m \<le> 4) \<and> (risk = RiskHigh \<longleftrightarrow> 4 < m)"
  by (auto simp: risk_def)

lemma node_risk:
  "riskLevel (calculateNodeOverCommit K node services) =
     (let m = max (getMaxValue (cpuOverCommitRatio (calculateNodeOverCommit K node services)))
                  (getMaxValue (memoryOverCommitRatio (calculateNodeOverCommit K node services)))
      in if m \<le> 1 then RiskNone else if m \<le> 2 then RiskLow
         else if m \<le> 4 then RiskMedium else RiskHigh)"
  by (simp add: calculateNodeOverCommit_def Let_def getMaxValue_def)

lemma cluster_risk:
  "c_riskLevel (calculateClusterOverCommit K nodes services) =
     (let m = max (getMaxValue (fst (overCommitRatio (calculateClusterOverCommit K nodes services))))
                  (getMaxValue (snd (overCommitRatio (calculateClusterOverCommit K nodes services))))
      in if m \<le> 1 then RiskNone else if m \<le> 2 then RiskLow
         else if m \<le> 4 then RiskMedium else RiskHigh)"
  by (simp add: calculateClusterOverCommit_def Let_def getMaxValue_def split_beta)

lemma nullish_max_limits:
  "nullish (maxLimitCPU s) (nullish (limitCPU s) (requiredCPU s)) = spec_maxLimitCPU s"
  "nullish (maxLimitMemory s) (nullish (limitMemory s) (requiredMemory s)) = spec_maxLimitMemory s"
  by (simp_all add: nullish_def spec_maxLimitCPU_def spec_maxLimitMemory_def split: option.splits)

lemma fold_plus_sum_list:
  fixes f :: "'a \<Rightarrow> rat"
  shows "fold (\<lambda>x sum. sum + f x) xs a = a + sum_list (map f xs)"
  by (induction xs arbitrary: a) simp_all

lemma node_ratios:
  "getMaxValue (cpuOverCommitRatio (calculateNodeOverCommit K node services)) =
     spec_nodeCpuRatio K node services"
  "getMaxValue (memoryOverCommitRatio (calculateNodeOverCommit K node services)) =
     spec_nodeMemoryRatio K node services"
  by (simp_all add: calculateNodeOverCommit_def Let_def getMaxValue_def spec_nodeCpuRatio_def
        spec_nodeMemoryRatio_def spec_ratio_def nullish_max_limits fold_plus_sum_list)

lemma count_list_concat:
  "count_list (concat xss) i = sum_list (map (\<lambda>xs. count_list xs i) xss)"
  by (induction xss) simp_all

lemma placementCount_spec: "placementCount nodes s = spec_placements nodes s"
  by (simp add: placementCount_def spec_placements_def count_list_concat comp_def
           split: option.splits)

lemma fold_allocatable:
  fixes f g :: "'a \<Rightarrow> rat"
  shows "fold (\<lambda>n (a, b). (a + f n, b + g n)) xs (a0, b0) =
           (a0 + sum_list (map f xs), b0 + sum_list (map g xs))"
  by (induction xs arbitrary: a0 b0) simp_all

lemma fold_totals:
  fixes f1 f2 f3 f4 f5 f6 :: "'a \<Rightarrow> rat"
  shows "fold (\<lambda>s (a, b, c, d, e, f).
            (a + f1 s, b + f2 s, c + f3 s, d + f4 s, e + f5 s, f + f6 s)) xs
            (a0, b0, c0, d0, e0, f0) =
         (a0 + sum_list (map f1 xs), b0 + sum_list (map f2 xs), c0 + sum_list (map f3 xs),
          d0 + sum_list (map f4 xs), e0 + sum_list (map f5 xs), f0 + sum_list (map f6 xs))"
  by (induction xs arbitrary: a0 b0 c0 d0 e0 f0) simp_all

lemma cluster_ratios:
  "getMaxValue (fst (overCommitRatio (calculateClusterOverCommit K nodes services))) =
     spec_clusterCpuRatio K nodes services"
  "getMaxValue (snd (overCommitRatio (calculateClusterOverCommit K nodes services))) =
     spec_clusterMemoryRatio K nodes services"
  by (simp_all add: calculateClusterOverCommit_def Let_def getMaxValue_def
        spec_clusterCpuRatio_def spec_clusterMemoryRatio_def spec_ratio_def nullish_max_limits
        placementCount_spec fold_allocatable fold_totals split_beta)

text \<open>
  C8. For the node-level and the cluster-level metrics, the maximal CPU and memory
  ratios of the result are the limits over what is available after the kubelet
  overhead, and the risk level is determined by \<open>m\<close>, the larger of the two: none iff
  \<open>m \<le> 1\<close>, low iff \<open>1 < m \<le> 2\<close>, medium iff \<open>2 < m \<le> 4\<close>, high iff \<open>4 < m\<close>.
\<close>

theorem riskLevel_of_worst_ratio:
  "(let r = calculateNodeOverCommit K node services;
        m = max (spec_nodeCpuRatio K node services) (spec_nodeMemoryRatio K node services)
    in getMaxValue (cpuOverCommitRatio r) = spec_nodeCpuRatio K node services \<and>
       getMaxValue (memoryOverCommitRatio r) = spec_nodeMemoryRatio K node services \<and>
       (riskLevel r = RiskNone \<longleftrightarrow> m \<le> 1) \<and>
       (riskLevel r = RiskLow \<longleftrightarrow> 1 < m \<and> m \<le> 2) \<and>
       (riskLevel r = RiskMedium \<longleftrightarrow> 2 < m \<and> m \<le> 4) \<and>
       (riskLevel r = RiskHigh \<longleftrightarrow> 4 < m)) \<and>
   (let r = calculateClusterOverCommit K nodes services;
        m = max (spec_clusterCpuRatio K nodes services) (spec_clusterMemoryRatio K nodes services)
    in getMaxValue (fst (overCommitRatio r)) = spec_clusterCpuRatio K nodes services \<and>
       getMaxValue (snd (overCommitRatio r)) = spec_clusterMemoryRatio K nodes services \<and>
       (c_riskLevel r = RiskNone \<longleftrightarrow> m \<le> 1) \<and>
       (c_riskLevel r = RiskLow \<longleftrightarrow> 1 < m \<and> m \<le> 2) \<and>
       (c_riskLevel r = RiskMedium \<longleftrightarrow> 2 < m \<and> m \<le> 4) \<and>
       (c_riskLevel r = RiskHigh \<longleftrightarrow> 4 < m))"
  unfolding Let_def
  using risk_table
    node_risk [of K node services, unfolded Let_def node_ratios]
    cluster_risk [of K nodes services, unfolded Let_def cluster_ratios]
    node_ratios [of K node services] cluster_ratios [of K nodes services]
  by presburger

text \<open>
  A service with static limits of 80 cores on a node of 16 is at high risk; a cluster
  of that node with the service of dynamic limits (at most 8 cores, 32 GB) is at none.
\<close>

theorem riskLevel_of_worst_ratio_witness:
  "riskLevel (calculateNodeOverCommit kubeletAtCalibration (plainNode 1 ''large'' 16 64 [2])
     [staticService]) = RiskHigh \<and>
   spec_nodeCpuRatio kubeletAtCalibration (plainNode 1 ''large'' 16 64 [2]) [staticService] =
     8000 / 1589 \<and>
   c_riskLevel (calculateClusterOverCommit kubeletAtCalibration
     [plainNode 1 ''large'' 16 64 [1]] [dynamicService]) = RiskNone"
proof -
  let ?node = "plainNode 1 ''large'' 16 64 [2]"
  let ?nodes = "[plainNode 1 ''large'' 16 64 [1]]"
  have cpu: "spec_nodeCpuRatio kubeletAtCalibration ?node [staticService] = 8000 / 1589"
    by code_simp
  have high: "4 < max (spec_nodeCpuRatio kubeletAtCalibration ?node [staticService])
                      (spec_nodeMemoryRatio kubeletAtCalibration ?node [staticService])"
    by code_simp
  have none: "max (spec_clusterCpuRatio kubeletAtCalibration ?nodes [dynamicService])
                  (spec_clusterMemoryRatio kubeletAtCalibration ?nodes [dynamicService]) \<le> 1"
    by code_simp
  from riskLevel_of_worst_ratio
    [of kubeletAtCalibration ?node "[staticService]", unfolded Let_def]
  have "riskLevel (calculateNodeOverCommit kubeletAtCalibration ?node [staticService]) =
          RiskHigh"
    using high by blast
  moreover from riskLevel_of_worst_ratio
    [of kubeletAtCalibration _ "[dynamicService]" ?nodes, unfolded Let_def]
  have "c_riskLevel (calculateClusterOverCommit kubeletAtCalibration ?nodes [dynamicService]) =
          RiskNone"
    using none by blast
  ultimately show ?thesis using cpu by simp
qed

end
